theory Spec2Isabelle
  imports Main "HOL-Library.FSet" "HOL-Library.Word" "HOL-Library.Signed_Division"
    "HOL-Library.Sublist"
begin

section \<open>Errors\<close>

text \<open>
  The manager reports failures as Go \<open>error\<close> values built with \<open>errors.Errorf\<close> (a
  fresh error) and \<open>errors.Wrapf\<close> (an annotation around a cause). The messages are
  format strings; each message site is represented here by a \<open>kind\<close>. Where the
  specification names the failure, its name is used:

  \<^item> \<open>InvalidName\<close>: "Volume name cannot be an empty string", "Volume name '%s' does nto
    match allowed pattern '%s'", "... - invalid volume name";
  \<^item> \<open>SizeTooSmall\<close>: "... requested size '%s' is smaller than minimum allowed 10MB";
  \<^item> \<open>UnsupportedFilesystem\<close>: "... only xfs and ext4 filesystems are supported, '%s' requested";
  \<^item> \<open>DataDirFailed\<close>: "... cannot create data dir: '%s'";
  \<^item> \<open>AllocationFailed\<close>: "... error creating sparse data file: %s", "Error creating volume '%s' - '%s'";
  \<^item> \<open>InsufficientSpace\<close>: "... not enough disk space: '%s'";
  \<^item> \<open>FormatFailed\<close>: "... cannot format datafile as %s filesystem: %s";
  \<^item> \<open>OwnershipSetupFailed\<close>: "... cannot mount volume to adjust its root owner/permissions",
    "... cannot adjust volume root permissions: %s", "... cannot adjust volume root owner",
    "... cannot unmount volume after adjusting its root owner/permissions";
  \<^item> \<open>MetadataFailed\<close>: "... cannot get its metadata";
  \<^item> \<open>LeaseError\<close>: "... cannot check its mount status", "... cannot create its state dir",
    "... cannot access lease file '%s'", "... cannot create lease file '%s'",
    "... cannot figure out if it's used somewhere else", "... cannot get its mount status.";
  \<^item> \<open>MountFailed\<close>: "... cannot create mount point dir", "... cannot mount data file '%s' at '%s': %s";
  \<^item> \<open>LeaseNotFound\<close>: "... cannot find lease '%s'";
  \<^item> \<open>UnmountFailed\<close>: "... cannot remove its state dir", "... cannot unmount data file '%s'
    from mount point '%s': %s", "... cannot remove mount point dir '%s'";
  \<^item> \<open>VolumeInUse\<close>: "Error deleting volume '%s' - still in use";
  \<^item> \<open>DeleteFailed\<close>: "... cannot delete '%s'";
  \<^item> \<open>GlobFailed\<close>: "... cannot glob data dir";
  \<^item> \<open>AmbiguousVolumeState\<close>: "More than 1 data file found for volume '%s'";
  \<^item> \<open>VolumeNotFound\<close>: "Volume '%s' does not exist";
  \<^item> \<open>VolumeDisappeared\<close>: "Volume '%s' disappeared just a moment ago";
  \<^item> \<open>UnexpectedVolumeState\<close>: "Volume data path expected to point to a file but it appears
    to be something else: '%s'";
  \<^item> \<open>ModeParseFailed\<close>: "cannot parse mode '%s' as positive 4-position octal";
  \<^item> \<open>InvalidMode\<close>: "mode value '%s' does not fall between 0 and 7777 in octal encoding".
\<close>

datatype kind =
    InvalidName | SizeTooSmall | UnsupportedFilesystem | DataDirFailed
  | AllocationFailed | InsufficientSpace | FormatFailed | OwnershipSetupFailed
  | MetadataFailed | LeaseError | MountFailed | LeaseNotFound | UnmountFailed
  | VolumeInUse | DeleteFailed | GlobFailed | AmbiguousVolumeState | VolumeNotFound
  | VolumeDisappeared | UnexpectedVolumeState | ModeParseFailed | InvalidMode

text \<open>Errors that come from the operating system, a subprocess or the standard library.\<close>

datatype errno = ENOENT | EEXIST | ExitError | ErrBadPattern | ErrSyntax | ErrRange

datatype error = Sys errno | New kind | Wrap error kind

text \<open>A Go \<open>error\<close> is \<open>error option\<close>: \<open>nil\<close> is \<open>None\<close>.\<close>

definition Errorf :: "kind \<Rightarrow> error option" where
  "Errorf k = Some (New k)"

text \<open>\<open>errors.Wrapf(err, ...)\<close> of github.com/pkg/errors: "If err is nil, Wrapf returns nil."\<close>

fun Wrapf :: "error option \<Rightarrow> kind \<Rightarrow> error option" where
  "Wrapf None k = None"
| "Wrapf (Some e) k = Some (Wrap e k)"

fun IsNotExist :: "error \<Rightarrow> bool" where
  "IsNotExist (Sys ENOENT) = True"
| "IsNotExist _ = False"

section \<open>Name validation\<close>

text \<open>
  \<open>NamePattern = `^[a-zA-Z0-9][\w\-]{1,250}$`\<close>. The pattern is a sequence of items, each a
  character class, taken once or repeated between a lower and an upper bound, between
  the anchors \<open>^\<close> and \<open>$\<close> (without the multi-line flag \<open>$\<close> is the end of the text). A
  class is a list of inclusive ranges. In Go's syntax \<open>\w\<close> is \<open>[0-9A-Za-z_]\<close>.
\<close>

type_synonym charClass = "(char \<times> char) list"

datatype item = Class charClass | Repeat charClass nat nat

definition inClass :: "charClass \<Rightarrow> char \<Rightarrow> bool" where
  "inClass cl c = (\<exists>(lo, hi) \<in> set cl. (of_char lo :: nat) \<le> of_char c \<and> (of_char c :: nat) \<le> of_char hi)"

text \<open>Matching a sequence of items against the whole of a string, with backtracking.\<close>

fun matchHere :: "item list \<Rightarrow> string \<Rightarrow> bool" where
  "matchHere [] s = (s = [])"
| "matchHere (Class cl # r) [] = False"
| "matchHere (Class cl # r) (c # s) = (inClass cl c \<and> matchHere r s)"
| "matchHere (Repeat cl lo hi # r) [] = (lo = 0 \<and> matchHere r [])"
| "matchHere (Repeat cl lo hi # r) (c # s) =
     (if 0 < lo then inClass cl c \<and> matchHere (Repeat cl (lo - 1) (hi - 1) # r) s
      else (0 < hi \<and> inClass cl c \<and> matchHere (Repeat cl 0 (hi - 1) # r) s)
           \<or> matchHere r (c # s))"

definition alnumClass :: charClass where
  "alnumClass = [(CHR ''a'', CHR ''z''), (CHR ''A'', CHR ''Z''), (CHR ''0'', CHR ''9'')]"

definition wordHyphenClass :: charClass where
  "wordHyphenClass = [(CHR ''0'', CHR ''9''), (CHR ''A'', CHR ''Z''), (CHR ''a'', CHR ''z''),
     (CHR ''_'', CHR ''_''), (CHR ''-'', CHR ''-'')]"

definition NameRegex :: "item list" where
  "NameRegex = [Class alnumClass, Repeat wordHyphenClass 1 250]"

definition MatchString :: "item list \<Rightarrow> string \<Rightarrow> bool" where
  "MatchString re s = matchHere re s"

definition validateName :: "string \<Rightarrow> error option" where
  "validateName name =
     (if name = [] then Errorf InvalidName
      else if \<not> MatchString NameRegex name then Errorf InvalidName
      else None)"

section \<open>The operating system\<close>

text \<open>
  The manager keeps no state of its own: everything is read from and written to the file
  system, and the privileged steps are subprocesses. The \<open>world\<close> is that environment:

  \<^item> \<open>dataFiles\<close>: the entries of the data directory, by path, each with what \<open>stat\<close> reports
    of it (whether it is a regular file, and its length);
  \<^item> \<open>dirs\<close>: the directories below the state directory and the mount directory, by
    path, each with the names of its entries (a state directory holds lease markers);
  \<^item> \<open>trace\<close>: the commands run so far, each with its outcome;
  \<^item> \<open>respond\<close>: the outcome of the next command, given the commands run so far; it is
    arbitrary, so every command may fail or succeed at every invocation.

  Assumptions of this model of the file system: the three configured directories are
  clean absolute paths, distinct from \<open>/\<close>, so that \<open>filepath.Join(a, b)\<close> is \<open>a/b\<close>; they can
  be created and written; a lease identifier is the name of one directory entry (it is
  not empty, not \<open>.\<close> or \<open>..\<close>, and has no \<open>/\<close>), as are the container identifiers the daemon
  passes and the identifier \<open>driver\<close> that \<open>Create\<close> uses; file system calls fail only for the
  reasons modelled (a missing or an existing entry). Of \<open>stat\<close> only the file type and the
  length are kept: the block count and the modification time, which \<open>getVolume\<close> copies
  into the fields \<open>AllocatedSizeInBytes\<close> and \<open>CreatedAt\<close>, are read by no operation.
\<close>

datatype fileKind = Regular | Directory | Irregular

record fileInfo =
  fmode :: fileKind
  Size :: int

datatype command =
    Truncate int string           \<comment> \<open>\<open>truncate -s <size> <path>\<close>\<close>
  | Fallocate int string          \<comment> \<open>\<open>fallocate -l <size> <path>\<close>\<close>
  | Dd string int int             \<comment> \<open>\<open>dd if=/dev/zero of=<path> bs=<bs> count=<count>\<close>\<close>
  | Mkfs string "string list"     \<comment> \<open>\<open>mkfs.<fs> <flags> <path>\<close>\<close>
  | MountCmd "string list"        \<comment> \<open>\<open>mount <flags> <data file> <mount point>\<close>\<close>
  | Umount "string list"          \<comment> \<open>\<open>umount -ld <mount point>\<close>\<close>
  | Chmod "32 word" string        \<comment> \<open>\<open>chmod <mode, in octal> <path>\<close>\<close>
  | Chown string int int          \<comment> \<open>\<open>os.Chown(path, uid, gid)\<close>\<close>

text \<open>
  What \<open>CombinedOutput\<close> returns: the error (\<open>None\<close> when the command exits with status 0)
  and the output. \<open>leftover\<close> is the length of the file that a failed \<open>truncate\<close>,
  \<open>fallocate\<close> or \<open>dd\<close> leaves at its path, when it leaves one.
\<close>

record outcome =
  exitErr :: "error option"
  outputText :: string
  leftover :: "int option"

record world =
  dataFiles :: "(string \<times> fileInfo) list"
  dirs :: "string \<Rightarrow> string fset option"
  trace :: "(command \<times> outcome) list"
  respond :: "(command \<times> outcome) list \<Rightarrow> command \<Rightarrow> outcome"

definition Join :: "string \<Rightarrow> string \<Rightarrow> string" where
  "Join a b = a @ ''/'' @ b"

definition putFile :: "string \<Rightarrow> fileInfo \<Rightarrow> world \<Rightarrow> world" where
  "putFile p info w = w\<lparr>dataFiles := (p, info) # filter (\<lambda>e. fst e \<noteq> p) (dataFiles w)\<rparr>"

fun leave :: "string \<Rightarrow> int option \<Rightarrow> world \<Rightarrow> world" where
  "leave p None w = w"
| "leave p (Some n) w = putFile p \<lparr>fmode = Regular, Size = n\<rparr> w"

text \<open>The effect of a command on the file system, as far as the manager can observe it.\<close>

fun effect :: "command \<Rightarrow> outcome \<Rightarrow> world \<Rightarrow> world" where
  "effect (Truncate n p) out w =
     (if exitErr out = None then putFile p \<lparr>fmode = Regular, Size = n\<rparr> w
      else leave p (leftover out) w)"
| "effect (Fallocate n p) out w =
     (if exitErr out = None
      then putFile p \<lparr>fmode = Regular,
             Size = (case map_of (dataFiles w) p of None \<Rightarrow> n | Some i \<Rightarrow> max n (Size i))\<rparr> w
      else leave p (leftover out) w)"
| "effect (Dd p bs count) out w =
     (if exitErr out = None then putFile p \<lparr>fmode = Regular, Size = bs * count\<rparr> w
      else leave p (leftover out) w)"
| "effect _ out w = w"

text \<open>\<open>exec.Command(...).CombinedOutput()\<close>: the environment gives the outcome, which is recorded.\<close>

definition exec :: "command \<Rightarrow> world \<Rightarrow> outcome \<times> world" where
  "exec c w =
     (let out = respond w (trace w) c
      in (out, effect c out (w\<lparr>trace := trace w @ [(c, out)]\<rparr>)))"

definition os_Stat :: "string \<Rightarrow> world \<Rightarrow> error + fileInfo" where
  "os_Stat p w =
     (case map_of (dataFiles w) p of
        Some i \<Rightarrow> Inr i
      | None \<Rightarrow> (case dirs w p of
                  Some es \<Rightarrow> Inr \<lparr>fmode = Directory, Size = 0\<rparr>
                | None \<Rightarrow> Inl (Sys ENOENT)))"

definition IsRegular :: "fileInfo \<Rightarrow> bool" where
  "IsRegular i = (fmode i = Regular)"

definition os_Remove :: "string \<Rightarrow> world \<Rightarrow> error option \<times> world" where
  "os_Remove p w =
     (if map_of (dataFiles w) p = None then (Some (Sys ENOENT), w)
      else (None, w\<lparr>dataFiles := filter (\<lambda>e. fst e \<noteq> p) (dataFiles w)\<rparr>))"

definition os_MkdirAll :: "string \<Rightarrow> world \<Rightarrow> error option \<times> world" where
  "os_MkdirAll p w =
     (None, if dirs w p = None then w\<lparr>dirs := (dirs w)(p \<mapsto> {||})\<rparr> else w)"

definition os_Mkdir :: "string \<Rightarrow> world \<Rightarrow> error option \<times> world" where
  "os_Mkdir p w =
     (if dirs w p \<noteq> None \<or> map_of (dataFiles w) p \<noteq> None then (Some (Sys EEXIST), w)
      else (None, w\<lparr>dirs := (dirs w)(p \<mapsto> {||})\<rparr>))"

definition os_RemoveAll :: "string \<Rightarrow> world \<Rightarrow> error option \<times> world" where
  "os_RemoveAll p w =
     (None, w\<lparr>dirs := (dirs w)(p := None), dataFiles := filter (\<lambda>e. fst e \<noteq> p) (dataFiles w)\<rparr>)"

definition ReadDir :: "string \<Rightarrow> world \<Rightarrow> error + string fset" where
  "ReadDir p w = (case dirs w p of None \<Rightarrow> Inl (Sys ENOENT) | Some es \<Rightarrow> Inr es)"

text \<open>
  The three calls on a lease marker, \<open>os.Stat\<close>, \<open>os.Create\<close> and \<open>os.Remove\<close> of
  \<open>filepath.Join(dir, name)\<close>, take the directory and the entry apart.
\<close>

definition os_StatIn :: "string \<Rightarrow> string \<Rightarrow> world \<Rightarrow> error option" where
  "os_StatIn d n w =
     (case dirs w d of
        None \<Rightarrow> Some (Sys ENOENT)
      | Some es \<Rightarrow> if n |\<in>| es then None else Some (Sys ENOENT))"

definition os_CreateIn :: "string \<Rightarrow> string \<Rightarrow> world \<Rightarrow> error option \<times> world" where
  "os_CreateIn d n w =
     (case dirs w d of
        None \<Rightarrow> (Some (Sys ENOENT), w)
      | Some es \<Rightarrow> (None, w\<lparr>dirs := (dirs w)(d \<mapsto> finsert n es)\<rparr>))"

definition os_RemoveIn :: "string \<Rightarrow> string \<Rightarrow> world \<Rightarrow> error option \<times> world" where
  "os_RemoveIn d n w =
     (case dirs w d of
        None \<Rightarrow> (Some (Sys ENOENT), w)
      | Some es \<Rightarrow> if n |\<in>| es then (None, w\<lparr>dirs := (dirs w)(d \<mapsto> es |-| {|n|})\<rparr>)
                  else (Some (Sys ENOENT), w))"

definition isEntryName :: "string \<Rightarrow> bool" where
  "isEntryName n = (n \<noteq> [] \<and> n \<noteq> ''.'' \<and> n \<noteq> ''..'' \<and> CHR ''/'' \<notin> set n)"

subsection \<open>Globbing\<close>

text \<open>
  \<open>filepath.Match\<close> for patterns of literal characters, \<open>*\<close> (any sequence of characters
  other than \<open>/\<close>) and \<open>?\<close> (one character other than \<open>/\<close>). Character classes and escapes are
  outside this model: \<open>Glob\<close> reports a pattern with \<open>[\<close> or a backslash as \<open>ErrBadPattern\<close>. No
  name that \<open>validateName\<close> accepts has any of these characters.
\<close>

fun globMatch :: "string \<Rightarrow> string \<Rightarrow> bool" where
  "globMatch [] s = (s = [])"
| "globMatch (p # ps) [] = (p = CHR ''*'' \<and> globMatch ps [])"
| "globMatch (p # ps) (c # cs) =
     (if p = CHR ''*'' then globMatch ps (c # cs) \<or> (c \<noteq> CHR ''/'' \<and> globMatch (p # ps) cs)
      else if p = CHR ''?'' then c \<noteq> CHR ''/'' \<and> globMatch ps cs
      else c = p \<and> globMatch ps cs)"

definition Glob :: "string \<Rightarrow> world \<Rightarrow> error + string list" where
  "Glob pattern w =
     (if CHR ''['' \<in> set pattern \<or> CHR 0x5C \<in> set pattern then Inl (Sys ErrBadPattern)
      else Inr (filter (globMatch pattern) (map fst (dataFiles w))))"

subsection \<open>Strings\<close>

text \<open>\<open>filepath.Ext\<close>: the suffix from the last dot of the last element of the path.\<close>

fun extFrom :: "string \<Rightarrow> string \<Rightarrow> string" where
  "extFrom [] acc = []"
| "extFrom (c # r) acc =
     (if c = CHR ''/'' then [] else if c = CHR ''.'' then c # acc else extFrom r (c # acc))"

definition Ext :: "string \<Rightarrow> string" where
  "Ext path = extFrom (rev path) []"

definition TrimLeft :: "string \<Rightarrow> string \<Rightarrow> string" where
  "TrimLeft s cutset = dropWhile (\<lambda>c. c \<in> set cutset) s"

text \<open>
  \<open>strings.TrimSpace\<close> and \<open>strings.Contains\<close>, on the bytes of a string; of the white space
  of Unicode the characters of ASCII are modelled (the output of a command is taken to be
  ASCII).
\<close>

definition isSpace :: "char \<Rightarrow> bool" where
  "isSpace c = (c \<in> {CHR 0x09, CHR 0x0A, CHR 0x0B, CHR 0x0C, CHR 0x0D, CHR '' ''})"

definition TrimSpace :: "string \<Rightarrow> string" where
  "TrimSpace s = rev (dropWhile isSpace (rev (dropWhile isSpace s)))"

fun Contains :: "string \<Rightarrow> string \<Rightarrow> bool" where
  "Contains [] substr = (substr = [])"
| "Contains (c # s) substr = (take (length substr) (c # s) = substr \<or> Contains s substr)"

section \<open>The volume manager\<close>

record Manager =
  stateDir :: string
  dataDir :: string
  mountDir :: string

record Volume =
  Name :: string
  Fs :: string
  MaxSizeInBytes :: "64 word"
  StateDir :: string
  DataFilePath :: string
  MountPointPath :: string

definition MkFsOptions :: "string \<Rightarrow> string list option" where
  "MkFsOptions = [''ext4'' \<mapsto> [''-F''], ''xfs'' \<mapsto> []]"

definition MountOptions :: "string \<Rightarrow> string list option" where
  "MountOptions = [''ext4'' \<mapsto> [], ''xfs'' \<mapsto> [''-o'', ''nouuid'']]"

definition getVolume :: "Manager \<Rightarrow> string \<Rightarrow> world \<Rightarrow> error + Volume" where
  "getVolume m name w =
     (let prefix = Join (dataDir m) name @ ''.*'' in
      case Glob prefix w of
        Inl e \<Rightarrow> Inl (Wrap e GlobFailed)
      | Inr matches \<Rightarrow>
          if length matches > 1 then Inl (New AmbiguousVolumeState)
          else if length matches = 0 then Inl (New VolumeNotFound)
          else
            let volumeDataFilePath = matches ! 0;
                fs = TrimLeft (Ext volumeDataFilePath) ''.''
            in case os_Stat volumeDataFilePath w of
                 Inl e \<Rightarrow> if IsNotExist e then Inl (New VolumeDisappeared) else Inl e
               | Inr volumeDataFileInfo \<Rightarrow>
                   if \<not> IsRegular volumeDataFileInfo then Inl (New UnexpectedVolumeState)
                   else Inr \<lparr>Name = name, Fs = fs,
                              MaxSizeInBytes = word_of_int (Size volumeDataFileInfo),
                              StateDir = Join (stateDir m) name,
                              DataFilePath = volumeDataFilePath,
                              MountPointPath = Join (mountDir m) name\<rparr>)"

text \<open>
  Modelled from the spec: \<open>Volume.IsMounted\<close>, whose file is not among the sources (only
  its three calls are). The specification has it as the lease tracker's \<open>listLeases\<close>: it
  lists the state directory of the volume, "an absent state directory is treated as zero
  leases, not an error", and the volume is mounted when the lease count is not zero.
\<close>

definition IsMounted :: "Volume \<Rightarrow> world \<Rightarrow> bool \<times> error option" where
  "IsMounted vol w =
     (case ReadDir (StateDir vol) w of
        Inl e \<Rightarrow> if IsNotExist e then (False, None) else (False, Wrapf (Some e) LeaseError)
      | Inr leases \<Rightarrow> (0 < fcard leases, None))"

definition Get :: "Manager \<Rightarrow> string \<Rightarrow> world \<Rightarrow> error + Volume" where
  "Get m name w =
     (case validateName name of
        Some e \<Rightarrow> Inl (Wrap e InvalidName)
      | None \<Rightarrow> getVolume m name w)"

text \<open>
  \<open>Mount\<close>, with its two blocks apart: recording the lease (lines 276 to 303 of the source)
  and, when the volume was not mounted, attaching it (lines 305 to 326).
\<close>

definition Mount_lease :: "Volume \<Rightarrow> string \<Rightarrow> world \<Rightarrow> error option \<times> world" where
  "Mount_lease vol lease w =
     (case (case os_Stat (StateDir vol) w of
              Inl e \<Rightarrow> if IsNotExist e then os_MkdirAll (StateDir vol) w else (None, w)
            | Inr _ \<Rightarrow> (None, w)) of (err, w1) \<Rightarrow>
      if err \<noteq> None then (Wrapf err LeaseError, w1)
      else let err = os_StatIn (StateDir vol) lease w1 in
      if (case err of None \<Rightarrow> False | Some e \<Rightarrow> \<not> IsNotExist e) then (Wrapf err LeaseError, w1)
      else case os_CreateIn (StateDir vol) lease w1 of (err, w2) \<Rightarrow>
      if err \<noteq> None then (Wrapf err LeaseError, w2)
      else (None, w2))"

definition Mount_attach :: "Volume \<Rightarrow> string \<Rightarrow> world \<Rightarrow> (string \<times> error option) \<times> world" where
  "Mount_attach vol lease w =
     (let failedResult = [] in
      case os_Mkdir (MountPointPath vol) w of (err, w1) \<Rightarrow>
      if err \<noteq> None
      then (case os_RemoveIn (StateDir vol) lease w1 of (_, w2) \<Rightarrow>
              ((failedResult, Wrapf err MountFailed), w2))
      else
        let mountFlags = (case MountOptions (Fs vol) of None \<Rightarrow> [] | Some fl \<Rightarrow> fl) in
        case exec (MountCmd (mountFlags @ [DataFilePath vol, MountPointPath vol])) w1 of
          (out, w2) \<Rightarrow>
        if exitErr out \<noteq> None
        then (case os_RemoveIn (StateDir vol) lease w2 of (_, w3) \<Rightarrow>
                ((failedResult, Wrapf (exitErr out) MountFailed), w3))
        else ((MountPointPath vol, None), w2))"

definition Mount :: "Manager \<Rightarrow> string \<Rightarrow> string \<Rightarrow> world \<Rightarrow> (string \<times> error option) \<times> world" where
  "Mount m name lease w =
     (let failedResult = [];
          err = validateName name in
      if err \<noteq> None then ((failedResult, Wrapf err InvalidName), w)
      else case getVolume m name w of
        Inl e \<Rightarrow> ((failedResult, Wrapf (Some e) MetadataFailed), w)
      | Inr vol \<Rightarrow>
      case IsMounted vol w of (isAlreadyMounted, err) \<Rightarrow>
      if err \<noteq> None then ((failedResult, Wrapf err LeaseError), w)
      else case Mount_lease vol lease w of (err, w1) \<Rightarrow>
      if err \<noteq> None then ((failedResult, err), w1)
      else if \<not> isAlreadyMounted then Mount_attach vol lease w1
      else ((MountPointPath vol, None), w1))"

definition UnMount :: "Manager \<Rightarrow> string \<Rightarrow> string \<Rightarrow> world \<Rightarrow> error option \<times> world" where
  "UnMount m name lease w =
     (let err = validateName name in
      if err \<noteq> None then (Wrapf err InvalidName, w)
      else case getVolume m name w of
        Inl e \<Rightarrow> (Wrapf (Some e) MetadataFailed, w)
      | Inr vol \<Rightarrow>
      case os_RemoveIn (StateDir vol) lease w of (err, w1) \<Rightarrow>
      if err \<noteq> None then (Wrapf err LeaseNotFound, w1)
      else case IsMounted vol w1 of (isMountedSomewhereElse, err) \<Rightarrow>
      if err \<noteq> None then (Wrapf err LeaseError, w1)
      else if \<not> isMountedSomewhereElse then
        (case os_RemoveAll (StateDir vol) w1 of (err, w2) \<Rightarrow>
         if err \<noteq> None then (Wrapf err UnmountFailed, w2)
         else case exec (Umount [''-ld'', MountPointPath vol]) w2 of (out, w3) \<Rightarrow>
         if exitErr out \<noteq> None then (Wrapf (exitErr out) UnmountFailed, w3)
         else case os_RemoveAll (MountPointPath vol) w3 of (err, w4) \<Rightarrow>
         if err \<noteq> None then (Wrapf err UnmountFailed, w4)
         else (None, w4))
      else (None, w1))"

definition Delete :: "Manager \<Rightarrow> string \<Rightarrow> world \<Rightarrow> error option \<times> world" where
  "Delete m name w =
     (let err = validateName name in
      if err \<noteq> None then (Wrapf err InvalidName, w)
      else case Get m name w of
        Inl e \<Rightarrow> (Wrapf (Some e) MetadataFailed, w)
      | Inr vol \<Rightarrow>
      case IsMounted vol w of (isMounted, err) \<Rightarrow>
      if err \<noteq> None then (Wrapf err LeaseError, w)
      else if isMounted then (Wrapf err VolumeInUse, w)
      else case os_Remove (DataFilePath vol) w of (err, w1) \<Rightarrow>
      if err \<noteq> None then (Wrapf err DeleteFailed, w1)
      else (None, w1))"

text \<open>
  \<open>Create\<close>, in its three stages: the data file (lines 156 to 197 of the source), its
  formatting (lines 199 to 207) and the adjustment of owner and mode (lines 211 to 251).
  \<open>sizeInBytes\<close> is an \<open>int64\<close>; \<open>/\<close> on it truncates towards zero (\<open>sdiv\<close>).
\<close>

definition Create_dataFile :: "int \<Rightarrow> bool \<Rightarrow> string \<Rightarrow> world \<Rightarrow> error option \<times> world" where
  "Create_dataFile sizeInBytes sparse dataFilePath w =
     (if sparse then
        (case exec (Truncate sizeInBytes dataFilePath) w of (out, w1) \<Rightarrow>
         if exitErr out \<noteq> None
         then (case os_Remove dataFilePath w1 of (_, w2) \<Rightarrow>
                 (Wrapf (exitErr out) AllocationFailed, w2))
         else (None, w1))
      else
        (case exec (Fallocate sizeInBytes dataFilePath) w of (out, w1) \<Rightarrow>
         if exitErr out \<noteq> None then
           let errStr = TrimSpace (outputText out) in
           if Contains errStr ''No space''
           then (case os_Remove dataFilePath w1 of (_, w2) \<Rightarrow>
                   (Wrapf (exitErr out) InsufficientSpace, w2))
           else
             let bs = 1000000;
                 count = sizeInBytes sdiv bs
             in case exec (Dd dataFilePath bs count) w1 of (out, w2) \<Rightarrow>
                if exitErr out \<noteq> None
                then (case os_Remove dataFilePath w2 of (_, w3) \<Rightarrow>
                        (Wrapf (exitErr out) AllocationFailed, w3))
                else (None, w2)
         else (None, w1)))"

definition Create_format :: "string \<Rightarrow> string list \<Rightarrow> string \<Rightarrow> world \<Rightarrow> error option \<times> world" where
  "Create_format fs mkfsFlags dataFilePath w =
     (case exec (Mkfs fs (mkfsFlags @ [dataFilePath])) w of (out, w1) \<Rightarrow>
      if exitErr out \<noteq> None
      then (case os_Remove dataFilePath w1 of (_, w2) \<Rightarrow> (Wrapf (exitErr out) FormatFailed, w2))
      else (None, w1))"

definition Create_adjust ::
  "Manager \<Rightarrow> string \<Rightarrow> int \<Rightarrow> int \<Rightarrow> 32 word \<Rightarrow> string \<Rightarrow> world \<Rightarrow> error option \<times> world" where
  "Create_adjust m name uid gid mode dataFilePath w =
     (if uid \<ge> 0 \<or> gid \<ge> 0 \<or> mode > 0 then
        let lease = ''driver'' in
        case Mount m name lease w of ((mountPath, err), w1) \<Rightarrow>
        if err \<noteq> None
        then (case os_Remove dataFilePath w1 of (_, w2) \<Rightarrow> (Wrapf err OwnershipSetupFailed, w2))
        else case (if mode > 0
                   then (case exec (Chmod mode mountPath) w1 of (out, w') \<Rightarrow> (exitErr out, w'))
                   else (None, w1)) of (err, w2) \<Rightarrow>
        if err \<noteq> None
        then (case UnMount m name lease w2 of (_, w3) \<Rightarrow>
              case os_Remove dataFilePath w3 of (_, w4) \<Rightarrow> (Wrapf err OwnershipSetupFailed, w4))
        else case (if uid \<ge> 0 \<or> gid \<ge> 0
                   then (case exec (Chown mountPath uid gid) w2 of (out, w') \<Rightarrow> (exitErr out, w'))
                   else (None, w2)) of (err, w3) \<Rightarrow>
        if err \<noteq> None
        then (case UnMount m name lease w3 of (_, w4) \<Rightarrow>
              case os_Remove dataFilePath w4 of (_, w5) \<Rightarrow> (Wrapf err OwnershipSetupFailed, w5))
        else case UnMount m name lease w3 of (err, w4) \<Rightarrow>
        if err \<noteq> None
        then (case os_Remove dataFilePath w4 of (_, w5) \<Rightarrow> (Wrapf err OwnershipSetupFailed, w5))
        else (None, w4)
      else (None, w))"

definition Create ::
  "Manager \<Rightarrow> string \<Rightarrow> int \<Rightarrow> bool \<Rightarrow> string \<Rightarrow> int \<Rightarrow> int \<Rightarrow> 32 word \<Rightarrow> world
     \<Rightarrow> error option \<times> world" where
  "Create m name sizeInBytes sparse fs uid gid mode w =
     (let err = validateName name in
      if err \<noteq> None then (Wrapf err InvalidName, w)
      else if sizeInBytes < 10000000 then (Errorf SizeTooSmall, w)
      else case MkFsOptions fs of
        None \<Rightarrow> (Errorf UnsupportedFilesystem, w)
      | Some mkfsFlags \<Rightarrow>
      case os_MkdirAll (dataDir m) w of (err, w1) \<Rightarrow>
      if err \<noteq> None then (Wrapf err DataDirFailed, w1)
      else
        let dataFilePath = Join (dataDir m) (name @ ''.'' @ fs) in
        case Create_dataFile sizeInBytes sparse dataFilePath w1 of (err, w2) \<Rightarrow>
        if err \<noteq> None then (err, w2)
        else case Create_format fs mkfsFlags dataFilePath w2 of (err, w3) \<Rightarrow>
        if err \<noteq> None then (err, w3)
        else Create_adjust m name uid gid mode dataFilePath w3)"

section \<open>The driver: the mode option\<close>

text \<open>
  \<open>strconv.ParseUint(s, 8, 32)\<close>: the digits are read from the left, and the first
  character that is not a digit of the base, or the first digit that takes the value
  beyond \<open>maxVal = 2^32 - 1\<close>, ends the parse. The value stays below \<open>2^35\<close>, so that the
  64-bit arithmetic of the source does not wrap and its test \<open>n1 < n\<close> never holds.
\<close>

definition digitVal :: "char \<Rightarrow> nat option" where
  "digitVal d =
     (let n = (of_char d :: nat) in
      if 48 \<le> n \<and> n \<le> 57 then Some (n - 48)
      else if 97 \<le> n \<and> n \<le> 122 then Some (n - 97 + 10)
      else if 65 \<le> n \<and> n \<le> 90 then Some (n - 65 + 10)
      else None)"

fun parseDigits :: "nat \<Rightarrow> nat \<Rightarrow> nat \<Rightarrow> string \<Rightarrow> error + nat" where
  "parseDigits base maxVal n [] = Inr n"
| "parseDigits base maxVal n (d # s) =
     (case digitVal d of
        None \<Rightarrow> Inl (Sys ErrSyntax)
      | Some v \<Rightarrow>
          if v \<ge> base then Inl (Sys ErrSyntax)
          else if n \<ge> 2 ^ 64 div base then Inl (Sys ErrRange)
          else let n1 = n * base + v in
               if n1 > maxVal then Inl (Sys ErrRange)
               else parseDigits base maxVal n1 s)"

definition ParseUint :: "string \<Rightarrow> nat \<Rightarrow> nat \<Rightarrow> error + nat" where
  "ParseUint s base bitSize =
     (if s = [] then Inl (Sys ErrSyntax) else parseDigits base (2 ^ bitSize - 1) 0 s)"

text \<open>
  The seventh step of \<open>Driver.Create\<close> (lines 160 to 178 of the driver): the value of the
  variable \<open>mode\<close> that is passed on to \<open>Manager.Create\<close>, and the error returned instead.
\<close>

definition Driver_Create_mode :: "(string \<Rightarrow> string option) \<Rightarrow> 32 word \<times> error option" where
  "Driver_Create_mode Options =
     (case Options ''mode'' of
        None \<Rightarrow> (0, None)
      | Some modeStr \<Rightarrow>
          if length modeStr > 0 then
            (case ParseUint modeStr 8 32 of
               Inl e \<Rightarrow> (0, Wrapf (Some e) ModeParseFailed)
             | Inr modeParsed \<Rightarrow>
                 if modeParsed \<le> 0 \<or> modeParsed > 4095 then (0, Errorf InvalidMode)
                 else (word_of_nat modeParsed, None))
          else (0, None))"

section \<open>Observations\<close>

text \<open>The lease markers of a volume, their number, and the commands run between two worlds.\<close>

definition leases :: "Manager \<Rightarrow> string \<Rightarrow> world \<Rightarrow> string fset" where
  "leases m name w = (case dirs w (Join (stateDir m) name) of None \<Rightarrow> {||} | Some es \<Rightarrow> es)"

definition leaseCount :: "Manager \<Rightarrow> string \<Rightarrow> world \<Rightarrow> nat" where
  "leaseCount m name w = fcard (leases m name w)"

definition executed :: "world \<Rightarrow> world \<Rightarrow> (command \<times> outcome) list" where
  "executed w w' = drop (length (trace w)) (trace w')"

definition fileSize :: "string \<Rightarrow> world \<Rightarrow> int option" where
  "fileSize p w = map_option Size (map_of (dataFiles w) p)"

text \<open>Sequences of \<open>Mount\<close> and \<open>UnMount\<close> calls, as the driver issues them under its lock.\<close>

datatype call = MountCall string string | UnMountCall string string

fun step :: "Manager \<Rightarrow> call \<Rightarrow> world \<Rightarrow> world" where
  "step m (MountCall name lease) w = snd (Mount m name lease w)"
| "step m (UnMountCall name lease) w = snd (UnMount m name lease w)"

definition run :: "Manager \<Rightarrow> call list \<Rightarrow> world \<Rightarrow> world" where
  "run m calls w = foldl (\<lambda>w c. step m c w) w calls"

definition mountCommand :: "Volume \<Rightarrow> command" where
  "mountCommand vol =
     MountCmd ((case MountOptions (Fs vol) of None \<Rightarrow> [] | Some fl \<Rightarrow> fl)
               @ [DataFilePath vol, MountPointPath vol])"









text \<open>\<open>hasMeta\<close> of path/filepath: whether a path has one of the characters \<open>*?[\<close> or a backslash.\<close>

definition hasMeta :: "string \<Rightarrow> bool" where
  "hasMeta path = (\<exists>c \<in> set path. c \<in> set ''*?['' \<or> c = CHR 0x5C)"

section \<open>Example worlds\<close>

text \<open>
  A manager, an environment in which every command succeeds, and worlds with one volume
  \<open>db\<close> of 50,000,000 bytes: without a lease, and with the lease \<open>c1\<close>.
\<close>

definition mgr :: Manager where
  "mgr = \<lparr>stateDir = ''/run/loop'', dataDir = ''/data'', mountDir = ''/mnt''\<rparr>"

definition success :: outcome where
  "success = \<lparr>exitErr = None, outputText = [], leftover = None\<rparr>"

definition quiet :: "(command \<times> outcome) list \<Rightarrow> command \<Rightarrow> outcome" where
  "quiet h c = success"

definition emptyWorld :: world where
  "emptyWorld = \<lparr>dataFiles = [], dirs = (\<lambda>d. None), trace = [], respond = quiet\<rparr>"

definition freshWorld :: world where
  "freshWorld = \<lparr>dataFiles = [(''/data/db.ext4'', \<lparr>fmode = Regular, Size = 50000000\<rparr>)],
     dirs = (\<lambda>d. None), trace = [], respond = quiet\<rparr>"

definition leasedWorld :: world where
  "leasedWorld = \<lparr>dataFiles = [(''/data/db.ext4'', \<lparr>fmode = Regular, Size = 50000000\<rparr>)],
     dirs = [''/run/loop/db'' \<mapsto> {|''c1''|}], trace = [], respond = quiet\<rparr>"

text \<open>
  Environments in which \<open>fallocate\<close> fails, for want of space or because the file system
  of the data directory does not support it, and every other command succeeds.
\<close>

definition noSpace :: "(command \<times> outcome) list \<Rightarrow> command \<Rightarrow> outcome" where
  "noSpace h c =
     (case c of
        Fallocate n p \<Rightarrow> \<lparr>exitErr = Some (Sys ExitError),
           outputText = ''fallocate: fallocate failed: No space left on device'' @ [CHR 0x0A],
           leftover = Some 0\<rparr>
      | _ \<Rightarrow> success)"

definition noFallocate :: "(command \<times> outcome) list \<Rightarrow> command \<Rightarrow> outcome" where
  "noFallocate h c =
     (case c of
        Fallocate n p \<Rightarrow> \<lparr>exitErr = Some (Sys ExitError),
           outputText = ''fallocate: fallocate failed: Operation not supported'' @ [CHR 0x0A],
           leftover = Some 0\<rparr>
      | _ \<Rightarrow> success)"

definition fullDisk :: world where
  "fullDisk = emptyWorld\<lparr>respond := noSpace\<rparr>"

definition plainDisk :: world where
  "plainDisk = emptyWorld\<lparr>respond := noFallocate\<rparr>"

section \<open>Properties of the name validator\<close>

lemma matchHere_Repeat:
  "lo \<le> hi \<Longrightarrow>
   matchHere [Repeat cl lo hi] s \<longleftrightarrow> lo \<le> length s \<and> length s \<le> hi \<and> (\<forall>c \<in> set s. inClass cl c)"
proof (induction s arbitrary: lo hi)
  case Nil
  then show ?case by simp
next
  case (Cons c s)
  show ?case
  proof (cases "0 < lo")
    case True
    with Cons.prems have "lo - 1 \<le> hi - 1" by simp
    from Cons.IH [OF this] True Cons.prems show ?thesis by auto
  next
    case False
    have "(0::nat) \<le> hi - 1" by simp
    from Cons.IH [OF this] False show ?thesis by auto
  qed
qed

lemma matchHere_NameRegex:
  "matchHere NameRegex name \<longleftrightarrow>
      2 \<le> length name \<and> length name \<le> 251 \<and> inClass alnumClass (hd name)
      \<and> (\<forall>c \<in> set (tl name). inClass wordHyphenClass c)"
proof (cases name)
  case Nil
  then show ?thesis by (simp add: NameRegex_def)
next
  case (Cons c s)
  have "matchHere [Repeat wordHyphenClass 1 250] s \<longleftrightarrow>
      1 \<le> length s \<and> length s \<le> 250 \<and> (\<forall>c \<in> set s. inClass wordHyphenClass c)"
    by (rule matchHere_Repeat) simp
  with Cons show ?thesis by (auto simp: NameRegex_def)
qed

lemma validateName_None:
  "validateName name = None \<longleftrightarrow> name \<noteq> [] \<and> matchHere NameRegex name"
  by (simp add: validateName_def MatchString_def Errorf_def)

lemma validateName_no_slash:
  assumes "validateName name = None"
  shows "CHR ''/'' \<notin> set name"
proof
  assume s: "CHR ''/'' \<in> set name"
  from assms have n: "name \<noteq> []" and m: "matchHere NameRegex name"
    by (simp_all add: validateName_None)
  have a: "\<not> inClass alnumClass (CHR ''/'')" by (simp add: inClass_def alnumClass_def)
  have b: "\<not> inClass wordHyphenClass (CHR ''/'')" by (simp add: inClass_def wordHyphenClass_def)
  from n s have "hd name = CHR ''/'' \<or> CHR ''/'' \<in> set (tl name)" by (cases name) auto
  with m a b show False by (auto simp: matchHere_NameRegex)
qed

text \<open>
  C10. The name validator accepts exactly the strings of length 2 to 251 whose first
  character is in \<open>[a-zA-Z0-9]\<close> and whose other characters are in \<open>[\w\-]\<close>; every other
  string, among them every string of one character, is rejected with \<open>InvalidName\<close>.
\<close>

theorem validateName_accepts_iff:
  "(validateName name = None \<longleftrightarrow>
      2 \<le> length name \<and> length name \<le> 251 \<and> inClass alnumClass (hd name)
      \<and> (\<forall>c \<in> set (tl name). inClass wordHyphenClass c))
   \<and> (validateName name \<noteq> None \<longrightarrow> validateName name = Some (New InvalidName))
   \<and> (length name = 1 \<longrightarrow> validateName name = Some (New InvalidName))"
  unfolding validateName_def MatchString_def Errorf_def matchHere_NameRegex
  by (cases name) auto

theorem validateName_accepts_iff_witness:
  "validateName ''db'' = None \<and> validateName ''a'' = Some (New InvalidName)
   \<and> validateName ''my vol'' = Some (New InvalidName)"
proof -
  have "validateName ''db'' = None"
    using validateName_accepts_iff [of "''db''"]
    by (simp add: inClass_def alnumClass_def wordHyphenClass_def)
  moreover have "length ''a'' = 1" by simp
  with validateName_accepts_iff [of "''a''"] have "validateName ''a'' = Some (New InvalidName)"
    by blast
  moreover have "\<not> inClass wordHyphenClass (CHR '' '')"
    by (simp add: inClass_def wordHyphenClass_def)
  then have "\<not> (\<forall>c \<in> set (tl ''my vol''). inClass wordHyphenClass c)" by simp
  with validateName_accepts_iff [of "''my vol''"]
  have "validateName ''my vol'' = Some (New InvalidName)" by blast
  ultimately show ?thesis by simp
qed

section \<open>Resolving a volume\<close>

lemma getVolume_fields:
  "getVolume m name w = Inr vol \<Longrightarrow>
   StateDir vol = Join (stateDir m) name \<and> MountPointPath vol = Join (mountDir m) name \<and> Name vol = name"
  by (auto simp: getVolume_def Let_def split: sum.splits if_splits)

lemma os_Stat_dataFile:
  "p \<in> fst ` set (dataFiles w) \<Longrightarrow> os_Stat p w = Inr (the (map_of (dataFiles w) p))"
  by (auto simp: os_Stat_def map_of_eq_None_iff split: option.splits)

lemma Glob_subset: "Glob pat w = Inr ms \<Longrightarrow> set ms \<subseteq> fst ` set (dataFiles w)"
  by (auto simp: Glob_def split: if_splits)

lemma Glob_dataFiles: "dataFiles w' = dataFiles w \<Longrightarrow> Glob pat w' = Glob pat w"
  by (simp add: Glob_def)

lemma getVolume_dataFiles:
  assumes "dataFiles w' = dataFiles w"
  shows "getVolume m name w' = getVolume m name w"
proof -
  let ?pat = "Join (dataDir m) name @ ''.*''"
  have g: "Glob ?pat w' = Glob ?pat w" using assms by (rule Glob_dataFiles)
  show ?thesis
  proof (cases "Glob ?pat w")
    case (Inl e)
    with g show ?thesis by (simp add: getVolume_def)
  next
    case (Inr ms)
    show ?thesis
    proof (cases "length ms = 1")
      case True
      then have "ms ! 0 \<in> set ms" by (cases ms) auto
      with Glob_subset [OF Inr] have "ms ! 0 \<in> fst ` set (dataFiles w)" by blast
      then have "os_Stat (ms ! 0) w' = os_Stat (ms ! 0) w"
        using assms by (simp add: os_Stat_dataFile)
      with g Inr show ?thesis by (simp add: getVolume_def Let_def)
    next
      case False
      with g Inr show ?thesis by (cases ms) (auto simp: getVolume_def Let_def)
    qed
  qed
qed

lemma IsMounted_leases:
  "getVolume m name w0 = Inr vol \<Longrightarrow> IsMounted vol w = (leases m name w \<noteq> {||}, None)"
  by (auto simp: IsMounted_def ReadDir_def leases_def fcard_0_eq fcard_fempty dest!: getVolume_fields split: option.splits)

lemma globMatch_star: "globMatch ''*'' s \<longleftrightarrow> CHR ''/'' \<notin> set s"
  by (induction s) auto

lemma globMatch_literal:
  assumes "CHR ''*'' \<notin> set lit" "CHR ''?'' \<notin> set lit"
  shows "globMatch (lit @ ''*'') s \<longleftrightarrow> (\<exists>ext. s = lit @ ext \<and> CHR ''/'' \<notin> set ext)"
  using assms
proof (induction lit arbitrary: s)
  case Nil
  then show ?case by (simp add: globMatch_star)
next
  case (Cons a l)
  then show ?case by (cases s) auto
qed

lemma validateName_chars:
  assumes "validateName name = None" "c \<in> set name"
  shows "inClass wordHyphenClass c"
proof -
  from assms(1) have n: "name \<noteq> []" and m: "matchHere NameRegex name"
    by (simp_all add: validateName_None)
  have a: "inClass alnumClass x \<Longrightarrow> inClass wordHyphenClass x" for x
    by (auto simp: inClass_def alnumClass_def wordHyphenClass_def)
  from n assms(2) have "c = hd name \<or> c \<in> set (tl name)" by (cases name) auto
  with m a show ?thesis by (auto simp: matchHere_NameRegex)
qed

lemma validateName_no_meta:
  assumes "validateName name = None"
  shows "\<not> hasMeta name"
proof -
  have "\<not> inClass wordHyphenClass (CHR ''*'')" "\<not> inClass wordHyphenClass (CHR ''?'')"
    "\<not> inClass wordHyphenClass (CHR ''['')" "\<not> inClass wordHyphenClass (CHR 0x5C)"
    by (simp_all add: inClass_def wordHyphenClass_def)
  with validateName_chars [OF assms] show ?thesis by (auto simp: hasMeta_def)
qed

lemma Glob_literal:
  assumes "\<not> hasMeta lit"
  shows "Glob (lit @ ''*'') w =
     Inr (filter (\<lambda>p. \<exists>ext. p = lit @ ext \<and> CHR ''/'' \<notin> set ext) (map fst (dataFiles w)))"
proof -
  from assms have a: "CHR ''*'' \<notin> set lit" "CHR ''?'' \<notin> set lit"
    and b: "CHR ''['' \<notin> set lit" "CHR 0x5C \<notin> set lit"
    by (auto simp: hasMeta_def)
  have "globMatch (lit @ ''*'') = (\<lambda>p. \<exists>ext. p = lit @ ext \<and> CHR ''/'' \<notin> set ext)"
    using globMatch_literal [OF a] by auto
  with b show ?thesis by (simp add: Glob_def)
qed

lemma getVolume_cases:
  "getVolume m name w =
     (case Glob (dataDir m @ ''/'' @ name @ ''.*'') w of
        Inl e \<Rightarrow> Inl (Wrap e GlobFailed)
      | Inr [] \<Rightarrow> Inl (New VolumeNotFound)
      | Inr [p] \<Rightarrow>
          (case os_Stat p w of
             Inl e \<Rightarrow> if IsNotExist e then Inl (New VolumeDisappeared) else Inl e
           | Inr i \<Rightarrow>
               if \<not> IsRegular i then Inl (New UnexpectedVolumeState)
               else Inr \<lparr>Name = name, Fs = TrimLeft (Ext p) ''.'',
                          MaxSizeInBytes = word_of_int (Size i),
                          StateDir = Join (stateDir m) name, DataFilePath = p,
                          MountPointPath = Join (mountDir m) name\<rparr>)
      | Inr (p # q # ms) \<Rightarrow> Inl (New AmbiguousVolumeState))"
  by (simp add: getVolume_def Join_def Let_def split: sum.splits list.splits)

text \<open>
  C9. Resolving a volume globs \<open><dataDir>/<name>.*\<close> (for a name that passes validation, in
  a data directory whose path has no metacharacter, the matches are the entries
  \<open><dataDir>/<name>.<ext>\<close>). It fails with \<open>VolumeNotFound\<close> when there is no match, with
  \<open>AmbiguousVolumeState\<close> when there is more than one, and with \<open>UnexpectedVolumeState\<close> when
  the one match is not a regular file; on one match that is a regular file it succeeds,
  and it succeeds on nothing else.
\<close>

theorem getVolume_resolution:
  "let matches = Glob (dataDir m @ ''/'' @ name @ ''.*'') w in
   (\<not> hasMeta (dataDir m) \<and> validateName name = None \<longrightarrow>
      matches = Inr (filter (\<lambda>p. \<exists>ext. p = dataDir m @ ''/'' @ name @ ''.'' @ ext \<and> CHR ''/'' \<notin> set ext)
                       (map fst (dataFiles w))))
   \<and> (matches = Inr [] \<longrightarrow> getVolume m name w = Inl (New VolumeNotFound))
   \<and> (\<forall>ms. matches = Inr ms \<and> 1 < length ms \<longrightarrow>
          getVolume m name w = Inl (New AmbiguousVolumeState))
   \<and> (\<forall>p i. matches = Inr [p] \<and> os_Stat p w = Inr i \<and> \<not> IsRegular i \<longrightarrow>
          getVolume m name w = Inl (New UnexpectedVolumeState))
   \<and> (\<forall>p i. matches = Inr [p] \<and> os_Stat p w = Inr i \<and> IsRegular i \<longrightarrow>
          (\<exists>vol. getVolume m name w = Inr vol \<and> DataFilePath vol = p))
   \<and> (\<forall>vol. getVolume m name w = Inr vol \<longrightarrow>
          (\<exists>p i. matches = Inr [p] \<and> os_Stat p w = Inr i \<and> IsRegular i \<and> DataFilePath vol = p))"
proof -
  have g: "Glob (dataDir m @ ''/'' @ name @ ''.*'') w =
      Inr (filter (\<lambda>p. \<exists>ext. p = dataDir m @ ''/'' @ name @ ''.'' @ ext \<and> CHR ''/'' \<notin> set ext)
             (map fst (dataFiles w)))"
    if "\<not> hasMeta (dataDir m)" "validateName name = None"
  proof -
    from validateName_no_meta [OF that(2)] that(1)
    have "\<not> hasMeta (dataDir m @ ''/'' @ name @ ''.'')" by (auto simp: hasMeta_def)
    from Glob_literal [OF this, of w] show ?thesis by simp
  qed
  have a: "getVolume m name w = Inl (New AmbiguousVolumeState)"
    if "Glob (dataDir m @ ''/'' @ name @ ''.*'') w = Inr ms" "1 < length ms" for ms
  proof -
    from that(2) obtain p q r where "ms = p # q # r" by (cases ms; cases "tl ms") auto
    with that(1) show ?thesis by (simp add: getVolume_cases)
  qed
  have s: "\<exists>p i. Glob (dataDir m @ ''/'' @ name @ ''.*'') w = Inr [p] \<and> os_Stat p w = Inr i
              \<and> IsRegular i \<and> DataFilePath vol = p"
    if "getVolume m name w = Inr vol" for vol
    using that by (auto simp: getVolume_cases split: sum.splits list.splits if_splits)
  show ?thesis
    unfolding Let_def using g a s by (auto simp: getVolume_cases)
qed

theorem getVolume_resolution_witness:
  "getVolume mgr ''db'' emptyWorld = Inl (New VolumeNotFound)
   \<and> getVolume mgr ''db'' (emptyWorld\<lparr>dataFiles :=
         [(''/data/db.ext4'', \<lparr>fmode = Regular, Size = 50000000\<rparr>),
          (''/data/db.xfs'', \<lparr>fmode = Regular, Size = 50000000\<rparr>)]\<rparr>)
       = Inl (New AmbiguousVolumeState)
   \<and> getVolume mgr ''db'' (emptyWorld\<lparr>dataFiles :=
         [(''/data/db.ext4'', \<lparr>fmode = Directory, Size = 0\<rparr>)]\<rparr>)
       = Inl (New UnexpectedVolumeState)
   \<and> (\<exists>vol. getVolume mgr ''db'' freshWorld = Inr vol \<and> DataFilePath vol = ''/data/db.ext4'')"
proof -
  let ?two = "emptyWorld\<lparr>dataFiles :=
         [(''/data/db.ext4'', \<lparr>fmode = Regular, Size = 50000000\<rparr>),
          (''/data/db.xfs'', \<lparr>fmode = Regular, Size = 50000000\<rparr>)]\<rparr>"
  let ?dir = "emptyWorld\<lparr>dataFiles := [(''/data/db.ext4'', \<lparr>fmode = Directory, Size = 0\<rparr>)]\<rparr>"
  let ?pat = "dataDir mgr @ ''/'' @ ''db'' @ ''.*''"
  have g0: "Glob ?pat emptyWorld = Inr []" by (simp add: Glob_def mgr_def emptyWorld_def)
  have g2: "Glob ?pat ?two = Inr [''/data/db.ext4'', ''/data/db.xfs'']"
    by (simp add: Glob_def mgr_def emptyWorld_def)
  have l2: "1 < length [''/data/db.ext4'', ''/data/db.xfs'']" by simp
  have g1: "Glob ?pat ?dir = Inr [''/data/db.ext4'']" by (simp add: Glob_def mgr_def emptyWorld_def)
  have s1: "os_Stat ''/data/db.ext4'' ?dir = Inr \<lparr>fmode = Directory, Size = 0\<rparr>"
    by (simp add: os_Stat_def emptyWorld_def)
  have r1: "\<not> IsRegular \<lparr>fmode = Directory, Size = 0\<rparr>" by (simp add: IsRegular_def)
  have gf: "Glob ?pat freshWorld = Inr [''/data/db.ext4'']"
    by (simp add: Glob_def mgr_def freshWorld_def)
  have sf: "os_Stat ''/data/db.ext4'' freshWorld = Inr \<lparr>fmode = Regular, Size = 50000000\<rparr>"
    by (simp add: os_Stat_def freshWorld_def)
  have rf: "IsRegular \<lparr>fmode = Regular, Size = 50000000\<rparr>" by (simp add: IsRegular_def)
  have a: "getVolume mgr ''db'' emptyWorld = Inl (New VolumeNotFound)"
    using getVolume_resolution [of mgr "''db''" emptyWorld, unfolded Let_def] g0 by blast
  have b: "getVolume mgr ''db'' ?two = Inl (New AmbiguousVolumeState)"
    using getVolume_resolution [of mgr "''db''" ?two, unfolded Let_def] g2 l2 by blast
  have c: "getVolume mgr ''db'' ?dir = Inl (New UnexpectedVolumeState)"
    using getVolume_resolution [of mgr "''db''" ?dir, unfolded Let_def] g1 s1 r1 by blast
  have d: "\<exists>vol. getVolume mgr ''db'' freshWorld = Inr vol \<and> DataFilePath vol = ''/data/db.ext4''"
    using getVolume_resolution [of mgr "''db''" freshWorld, unfolded Let_def] gf sf rf by blast
  from a b c d show ?thesis by blast
qed

section \<open>The example worlds, resolved\<close>

lemma validateName_db: "validateName ''db'' = None"
  by (simp add: validateName_def MatchString_def NameRegex_def inClass_def alnumClass_def wordHyphenClass_def)

lemma getVolume_db: "getVolume mgr ''db'' leasedWorld = Inr \<lparr>Name = ''db'', Fs = ''ext4'',
   MaxSizeInBytes = 50000000, StateDir = ''/run/loop/db'', DataFilePath = ''/data/db.ext4'', MountPointPath = ''/mnt/db''\<rparr>"
  by (simp add: getVolume_def mgr_def leasedWorld_def Join_def Glob_def os_Stat_def IsRegular_def Ext_def TrimLeft_def)

lemma getVolume_db_fresh: "getVolume mgr ''db'' freshWorld = Inr \<lparr>Name = ''db'', Fs = ''ext4'',
   MaxSizeInBytes = 50000000, StateDir = ''/run/loop/db'', DataFilePath = ''/data/db.ext4'', MountPointPath = ''/mnt/db''\<rparr>"
  by (simp add: getVolume_def mgr_def freshWorld_def Join_def Glob_def os_Stat_def IsRegular_def Ext_def TrimLeft_def)

section \<open>Leases, mounting and unmounting\<close>

lemma Mount_lease_present:
  assumes "dirs w (StateDir vol) = Some es"
  shows "Mount_lease vol lease w = (None, w\<lparr>dirs := (dirs w)(StateDir vol \<mapsto> finsert lease es)\<rparr>)"
  using assms
  by (auto simp: Mount_lease_def os_Stat_def os_StatIn_def os_CreateIn_def Let_def split: option.splits)

lemma Mount_lease_absent:
  assumes "dirs w (StateDir vol) = None"
  shows "Mount_lease vol lease w =
           (if map_of (dataFiles w) (StateDir vol) = None
            then (None, w\<lparr>dirs := (dirs w)(StateDir vol \<mapsto> {|lease|})\<rparr>)
            else (Some (Wrap (Sys ENOENT) LeaseError), w))"
  using assms
  by (auto simp: Mount_lease_def os_Stat_def os_StatIn_def os_CreateIn_def os_MkdirAll_def Let_def
      split: option.splits)

lemma Mount_attach_exists:
  assumes "dirs w (MountPointPath vol) \<noteq> None \<or> map_of (dataFiles w) (MountPointPath vol) \<noteq> None"
  shows "Mount_attach vol lease w =
           (([], Some (Wrap (Sys EEXIST) MountFailed)), snd (os_RemoveIn (StateDir vol) lease w))"
  using assms by (auto simp: Mount_attach_def os_Mkdir_def split: prod.splits)

lemma Mount_attach_fresh:
  assumes "dirs w (MountPointPath vol) = None" "map_of (dataFiles w) (MountPointPath vol) = None"
  shows "Mount_attach vol lease w =
          (let out = respond w (trace w) (mountCommand vol);
               w1 = w\<lparr>dirs := (dirs w)(MountPointPath vol \<mapsto> {||}),
                      trace := trace w @ [(mountCommand vol, out)]\<rparr>
           in if exitErr out \<noteq> None
             then (([], Wrapf (exitErr out) MountFailed), snd (os_RemoveIn (StateDir vol) lease w1))
             else ((MountPointPath vol, None), w1))"
  using assms by (auto simp: Mount_attach_def os_Mkdir_def exec_def Let_def mountCommand_def split: prod.splits)

lemma UnMount_absent:
  assumes "validateName name = None" "getVolume m name w = Inr vol" "lease |\<notin>| leases m name w"
  shows "UnMount m name lease w = (Some (Wrap (Sys ENOENT) LeaseNotFound), w)"
  using assms getVolume_fields [OF assms(2)]
  by (auto simp: UnMount_def os_RemoveIn_def leases_def split: option.splits)



lemma Mount_mounted:
  assumes "validateName name = None" "getVolume m name w = Inr vol" "leases m name w \<noteq> {||}"
  shows "Mount m name lease w =
     ((Join (mountDir m) name, None),
      w\<lparr>dirs := (dirs w)(Join (stateDir m) name \<mapsto> finsert lease (leases m name w))\<rparr>)"
proof -
  have f: "StateDir vol = Join (stateDir m) name" "MountPointPath vol = Join (mountDir m) name"
    using getVolume_fields [OF assms(2)] by simp_all
  from assms(3) obtain es where d: "dirs w (StateDir vol) = Some es"
    by (auto simp: leases_def f split: option.splits)
  then have l: "leases m name w = es" by (simp add: leases_def f)
  have i: "IsMounted vol w = (True, None)"
    using IsMounted_leases [OF assms(2), of w] assms(3) by simp
  show ?thesis
    using assms(1,2) i Mount_lease_present [OF d, of lease] l
    by (simp add: Mount_def f)
qed










lemma Mount_success_resolved:
  assumes "Mount m name lease w = ((p, None), w')"
  shows "validateName name = None \<and> (\<exists>vol. getVolume m name w = Inr vol)"
  using assms by (cases "validateName name"; cases "getVolume m name w") (auto simp: Mount_def Let_def)

lemma Mount_lease_files: "dataFiles (snd (Mount_lease vol lease w)) = dataFiles w"
  by (auto simp: Mount_lease_def os_Stat_def os_StatIn_def os_CreateIn_def os_MkdirAll_def Let_def
      split: option.splits)

lemma os_RemoveIn_files: "dataFiles (snd (os_RemoveIn d n w)) = dataFiles w"
  by (auto simp: os_RemoveIn_def split: option.splits)

lemma Mount_attach_files: "dataFiles (snd (Mount_attach vol lease w)) = dataFiles w"
  by (simp add: Mount_attach_def os_Mkdir_def exec_def Let_def os_RemoveIn_files case_prod_beta)

lemma Mount_files: "dataFiles (snd (Mount m name lease w)) = dataFiles w"
  by (simp add: Mount_def Let_def case_prod_beta Mount_attach_files Mount_lease_files
      split: sum.splits)

lemma Mount_success_mounted:
  assumes "validateName name = None" "getVolume m name w = Inr vol" "leases m name w \<noteq> {||}"
   and "Mount m name lease w = ((p, e), w1)"
  shows "p = Join (mountDir m) name \<and> lease |\<in>| leases m name w1"
proof -
  let ?w1 = "w\<lparr>dirs := (dirs w)(Join (stateDir m) name \<mapsto> finsert lease (leases m name w))\<rparr>"
  from Mount_mounted [OF assms(1-3), of lease] assms(4)
  have "p = Join (mountDir m) name" and "w1 = ?w1" by simp_all
  moreover have "lease |\<in>| leases m name ?w1" by (simp add: leases_def)
  ultimately show ?thesis by simp
qed

lemma Mount_success_unmounted:
  assumes "validateName name = None" "getVolume m name w = Inr vol" "leases m name w = {||}"
   and "Mount m name lease w = ((p, None), w1)"
  shows "p = Join (mountDir m) name \<and> lease |\<in>| leases m name w1"
proof -
  have f: "StateDir vol = Join (stateDir m) name" "MountPointPath vol = Join (mountDir m) name"
    using getVolume_fields [OF assms(2)] by simp_all
  have i: "IsMounted vol w = (False, None)"
    using IsMounted_leases [OF assms(2), of w] assms(3) by simp
  obtain e w2 where ml: "Mount_lease vol lease w = (e, w2)" by (cases "Mount_lease vol lease w")
  have M: "Mount m name lease w = (if e \<noteq> None then (([], e), w2) else Mount_attach vol lease w2)"
    using assms(1,2) i ml by (simp add: Mount_def)
  with assms(4) have e: "e = None" and ma: "Mount_attach vol lease w2 = ((p, None), w1)"
    by (cases e; simp)+
  from assms(3) have d: "dirs w (StateDir vol) = None \<or> dirs w (StateDir vol) = Some {||}"
    by (auto simp: leases_def f split: option.splits)
  have w2: "w2 = w\<lparr>dirs := (dirs w)(StateDir vol \<mapsto> {|lease|})\<rparr>"
  proof (cases "dirs w (StateDir vol)")
    case None
    with Mount_lease_absent [OF None, of lease] ml e show ?thesis
      by (cases "map_of (dataFiles w) (StateDir vol) = None") simp_all
  next
    case (Some es)
    with d have "es = {||}" by simp
    with Mount_lease_present [OF Some, of lease] ml show ?thesis by simp
  qed
  show ?thesis
  proof (cases "dirs w2 (MountPointPath vol) = None \<and> map_of (dataFiles w2) (MountPointPath vol) = None")
    case False
    then have "fst (Mount_attach vol lease w2) = ([], Some (Wrap (Sys EEXIST) MountFailed))"
      using Mount_attach_exists [of w2 vol lease] by simp
    with ma show ?thesis by simp
  next
    case T: True
    have "dirs w2 (StateDir vol) \<noteq> None" by (simp add: w2)
    with T have ne: "MountPointPath vol \<noteq> StateDir vol" by auto
    let ?out = "respond w2 (trace w2) (mountCommand vol)"
    let ?w3 = "w2\<lparr>dirs := (dirs w2)(MountPointPath vol \<mapsto> {||}),
                    trace := trace w2 @ [(mountCommand vol, ?out)]\<rparr>"
    from T have F: "Mount_attach vol lease w2 =
        (if exitErr ?out \<noteq> None
         then (([], Wrapf (exitErr ?out) MountFailed), snd (os_RemoveIn (StateDir vol) lease ?w3))
         else ((MountPointPath vol, None), ?w3))"
      using Mount_attach_fresh [of w2 vol lease] by (simp add: Let_def)
    have "p = MountPointPath vol \<and> w1 = ?w3"
    proof (cases "exitErr ?out")
      case None
      with F ma show ?thesis by simp
    next
      case (Some x)
      with F ma show ?thesis by simp
    qed
    moreover have "dirs ?w3 (StateDir vol) = Some {|lease|}" using ne by (simp add: w2)
    ultimately show ?thesis by (simp add: f leases_def)
  qed
qed

lemma Mount_again:
  assumes "validateName name = None" "getVolume m name w = Inr vol" "lease |\<in>| leases m name w"
  shows "Mount m name lease w = ((Join (mountDir m) name, None), w)"
proof -
  from assms(3) obtain es where d: "dirs w (Join (stateDir m) name) = Some es" and es: "lease |\<in>| es"
    by (auto simp: leases_def split: option.splits)
  then have l: "leases m name w = es" by (simp add: leases_def)
  from es have fi: "finsert lease es = es" by auto
  have ne: "leases m name w \<noteq> {||}" using es l by auto
  have "(dirs w)(Join (stateDir m) name \<mapsto> es) = dirs w" using d by (rule fun_upd_idem)
  then have "w\<lparr>dirs := (dirs w)(Join (stateDir m) name \<mapsto> finsert lease (leases m name w))\<rparr> = w"
    by (simp add: l fi)
  with Mount_mounted [OF assms(1,2) ne, of lease] show ?thesis by simp
qed

text \<open>
  C3. After a \<open>Mount\<close> that succeeds, a second \<open>Mount\<close> with the same lease identifier
  succeeds too, returns the same path \<open><mountDir>/<name>\<close>, and leaves the world as it is:
  the marker of that identifier is there once, and the lease count is the same.
\<close>

theorem Mount_twice:
  assumes "isEntryName lease" and "Mount m name lease w = ((p, None), w1)"
  shows "Mount m name lease w1 = ((p, None), w1) \<and> p = mountDir m @ ''/'' @ name
     \<and> lease |\<in>| leases m name w1
     \<and> leaseCount m name (snd (Mount m name lease w1)) = leaseCount m name w1"
proof -
  from Mount_success_resolved [OF assms(2)] obtain vol
    where v: "validateName name = None" and g: "getVolume m name w = Inr vol" by blast
  have "dataFiles w1 = dataFiles w" using Mount_files [of m name lease w] assms(2) by simp
  then have "getVolume m name w1 = getVolume m name w" by (rule getVolume_dataFiles)
  with g have g1: "getVolume m name w1 = Inr vol" by simp
  have pl: "p = Join (mountDir m) name \<and> lease |\<in>| leases m name w1"
  proof (cases "leases m name w = {||}")
    case True
    then show ?thesis by (rule Mount_success_unmounted [OF v g _ assms(2)])
  next
    case False
    then show ?thesis by (rule Mount_success_mounted [OF v g _ assms(2)])
  qed
  then have l1: "lease |\<in>| leases m name w1" and p: "p = Join (mountDir m) name" by simp_all
  have again: "Mount m name lease w1 = ((p, None), w1)"
    unfolding p by (rule Mount_again [OF v g1 l1])
  have "snd (Mount m name lease w1) = w1" by (simp only: again snd_conv)
  with again l1 p show ?thesis by (simp only: Join_def simp_thms)
qed

text \<open>
  C4. \<open>UnMount\<close> of a resolved volume with a lease identifier that has no marker fails
  with \<open>LeaseNotFound\<close> and leaves the world as it is: the lease count is the same and no
  command is run.
\<close>

theorem UnMount_absent_lease:
  assumes "validateName name = None" "getVolume m name w = Inr vol"
    and "isEntryName lease" "lease |\<notin>| leases m name w"
  shows "UnMount m name lease w = (Some (Wrap (Sys ENOENT) LeaseNotFound), w)
     \<and> leaseCount m name (snd (UnMount m name lease w)) = leaseCount m name w
     \<and> executed w (snd (UnMount m name lease w)) = []"
  using UnMount_absent [OF assms(1,2,4)] by (simp add: executed_def)

subsection \<open>The example worlds\<close>

lemma Mount_first:
  assumes "validateName name = None" "getVolume m name w = Inr vol"
    and "dirs w (Join (stateDir m) name) = None" "map_of (dataFiles w) (Join (stateDir m) name) = None"
    and "dirs w (Join (mountDir m) name) = None" "map_of (dataFiles w) (Join (mountDir m) name) = None"
    and "stateDir m \<noteq> mountDir m"
    and "exitErr (respond w (trace w) (mountCommand vol)) = None"
  shows "Mount m name lease w =
     ((Join (mountDir m) name, None),
      w\<lparr>dirs := (dirs w)(Join (stateDir m) name \<mapsto> {|lease|}, Join (mountDir m) name \<mapsto> {||}),
        trace := trace w @ [(mountCommand vol, respond w (trace w) (mountCommand vol))]\<rparr>)"
proof -
  have f: "StateDir vol = Join (stateDir m) name" "MountPointPath vol = Join (mountDir m) name"
    using getVolume_fields [OF assms(2)] by simp_all
  have "leases m name w = {||}" using assms(3) by (simp add: leases_def)
  then have i: "IsMounted vol w = (False, None)"
    using IsMounted_leases [OF assms(2), of w] by simp
  let ?w1 = "w\<lparr>dirs := (dirs w)(StateDir vol \<mapsto> {|lease|})\<rparr>"
  have ml: "Mount_lease vol lease w = (None, ?w1)"
    using Mount_lease_absent [of w vol lease] assms(3,4) by (simp add: f)
  have ne: "Join (stateDir m) name \<noteq> Join (mountDir m) name"
    using assms(7) by (simp add: Join_def)
  have "Mount_attach vol lease ?w1 =
      ((MountPointPath vol, None),
       ?w1\<lparr>dirs := (dirs ?w1)(MountPointPath vol \<mapsto> {||}),
            trace := trace ?w1 @ [(mountCommand vol, respond ?w1 (trace ?w1) (mountCommand vol))]\<rparr>)"
    using Mount_attach_fresh [of ?w1 vol lease] assms(5,6,8) ne by (simp add: f Let_def)
  then show ?thesis using assms(1,2) i ml by (simp add: Mount_def f)
qed

lemma Mount_fresh:
  "Mount mgr ''db'' ''c1'' freshWorld =
     ((''/mnt/db'', None),
      freshWorld\<lparr>dirs := [''/run/loop/db'' \<mapsto> {|''c1''|}, ''/mnt/db'' \<mapsto> {||}],
        trace := [(MountCmd [''/data/db.ext4'', ''/mnt/db''], success)]\<rparr>)"
proof -
  have "Mount mgr ''db'' ''c1'' freshWorld =
     ((Join (mountDir mgr) ''db'', None),
      freshWorld\<lparr>dirs := (dirs freshWorld)(Join (stateDir mgr) ''db'' \<mapsto> {|''c1''|}, Join (mountDir mgr) ''db'' \<mapsto> {||}),
        trace := trace freshWorld @ [(mountCommand \<lparr>Name = ''db'', Fs = ''ext4'',
   MaxSizeInBytes = 50000000, StateDir = ''/run/loop/db'', DataFilePath = ''/data/db.ext4'', MountPointPath = ''/mnt/db''\<rparr>, respond freshWorld (trace freshWorld) (mountCommand \<lparr>Name = ''db'', Fs = ''ext4'',
   MaxSizeInBytes = 50000000, StateDir = ''/run/loop/db'', DataFilePath = ''/data/db.ext4'', MountPointPath = ''/mnt/db''\<rparr>))]\<rparr>)"
    by (rule Mount_first [OF validateName_db getVolume_db_fresh])
       (simp_all add: mgr_def freshWorld_def Join_def quiet_def success_def)
  then show ?thesis
    by (simp add: mgr_def freshWorld_def Join_def quiet_def mountCommand_def MountOptions_def)
qed


theorem Mount_twice_witness:
  "Mount mgr ''db'' ''c1'' (snd (Mount mgr ''db'' ''c1'' freshWorld))
     = ((''/mnt/db'', None), snd (Mount mgr ''db'' ''c1'' freshWorld))
   \<and> ''c1'' |\<in>| leases mgr ''db'' (snd (Mount mgr ''db'' ''c1'' freshWorld))
   \<and> leaseCount mgr ''db'' (snd (Mount mgr ''db'' ''c1'' freshWorld)) = 1"
proof -
  let ?w1 = "snd (Mount mgr ''db'' ''c1'' freshWorld)"
  have e: "isEntryName ''c1''" by (simp add: isEntryName_def)
  have m: "Mount mgr ''db'' ''c1'' freshWorld = ((''/mnt/db'', None), ?w1)"
    by (simp add: Mount_fresh)
  have c: "leaseCount mgr ''db'' ?w1 = 1"
    unfolding Mount_fresh
    by (simp add: leaseCount_def leases_def mgr_def Join_def fcard_finsert_if fcard_fempty)
  from Mount_twice [OF e m] c show ?thesis by simp
qed

theorem UnMount_absent_lease_witness:
  "UnMount mgr ''db'' ''c9'' leasedWorld = (Some (Wrap (Sys ENOENT) LeaseNotFound), leasedWorld)"
proof -
  have e: "isEntryName ''c9''" by (simp add: isEntryName_def)
  have l: "''c9'' |\<notin>| leases mgr ''db'' leasedWorld"
    by (simp add: leases_def mgr_def leasedWorld_def Join_def)
  from UnMount_absent_lease [OF validateName_db getVolume_db e l] show ?thesis by simp
qed

section \<open>Deleting a volume\<close>

lemma Delete_leased:
  assumes "validateName name = None" "getVolume m name w = Inr vol" "leases m name w \<noteq> {||}"
  shows "Delete m name w = (None, w)"
  using assms IsMounted_leases [OF assms(2), of w]
  by (simp add: Delete_def Get_def)

text \<open>
  C1. \<open>Delete\<close> of a volume that holds a lease: the source returns
  \<open>errors.Wrapf(err, "... still in use")\<close> with \<open>err\<close> the error of \<open>IsMounted\<close>, which is \<open>nil\<close>
  on this path, so that the call returns \<open>nil\<close>: it reports success, and keeps the backing
  file. Here the volume \<open>db\<close> holds the lease \<open>c1\<close>.
\<close>

theorem Delete_leased_returns_nil: "Delete mgr ''db'' leasedWorld = (None, leasedWorld)"
  by (rule Delete_leased [OF validateName_db getVolume_db]) (simp add: leases_def mgr_def leasedWorld_def Join_def)

section \<open>The mode option\<close>

lemma ParseUint_nonempty: "ParseUint s base bitSize = Inr v \<Longrightarrow> s \<noteq> []"
  by (auto simp: ParseUint_def split: if_splits)

text \<open>
  C5, as stated, fails: the mode \<open>0\<close> lies in the range \<open>0..07777\<close>, and \<open>Driver.Create\<close>
  rejects it with \<open>InvalidMode\<close> (its test is \<open>modeParsed <= 0 || modeParsed > 07777\<close>).
\<close>

theorem mode_zero_rejected:
  "Driver_Create_mode [''mode'' \<mapsto> ''0''] = (0, Some (New InvalidMode))"
  by (simp add: Driver_Create_mode_def ParseUint_def digitVal_def Errorf_def)

text \<open>
  C5, amended. A mode string that parses as an octal number of 32 bits is accepted exactly
  when its value lies in \<open>1..07777\<close>, and the value is then passed on; every other value,
  among them \<open>0\<close>, fails with \<open>InvalidMode\<close>.
\<close>

theorem mode_accepted_iff:
  assumes "ParseUint modeStr 8 32 = Inr v"
  shows "(snd (Driver_Create_mode (Options(''mode'' \<mapsto> modeStr))) = None \<longleftrightarrow> 1 \<le> v \<and> v \<le> 4095)
    \<and> (1 \<le> v \<and> v \<le> 4095 \<longrightarrow>
          Driver_Create_mode (Options(''mode'' \<mapsto> modeStr)) = (word_of_nat v, None))
    \<and> (\<not> (1 \<le> v \<and> v \<le> 4095) \<longrightarrow>
          Driver_Create_mode (Options(''mode'' \<mapsto> modeStr)) = (0, Some (New InvalidMode)))"
  using assms ParseUint_nonempty [OF assms]
  by (auto simp: Driver_Create_mode_def Errorf_def)

lemma p7777: "ParseUint ''7777'' 8 32 = Inr 4095"
  by (simp add: ParseUint_def digitVal_def)

lemma p10000: "ParseUint ''10000'' 8 32 = Inr 4096"
  by (simp add: ParseUint_def digitVal_def)

theorem mode_accepted_iff_witness:
  "Driver_Create_mode [''mode'' \<mapsto> ''7777''] = (4095, None)
   \<and> Driver_Create_mode [''mode'' \<mapsto> ''10000''] = (0, Some (New InvalidMode))"
  using mode_accepted_iff [OF p7777, of Map.empty] mode_accepted_iff [OF p10000, of Map.empty]
  by simp

section \<open>Creating a volume\<close>

lemma MkFsOptions_None: "MkFsOptions fs = None \<longleftrightarrow> fs \<noteq> ''ext4'' \<and> fs \<noteq> ''xfs''"
  by (auto simp: MkFsOptions_def)

text \<open>
  C6, amended. For every name, \<open>Create\<close> with a size below 10,000,000 or with a file system
  other than \<open>ext4\<close> and \<open>xfs\<close> fails and leaves the world as it is: no file is created and no
  command is run. The checks are made in the order name, size, file system: with a name
  that passes validation the size below 10,000,000 fails with \<open>SizeTooSmall\<close>, and with such
  a name and a size of at least 10,000,000 the other file system fails with
  \<open>UnsupportedFilesystem\<close>.
\<close>

theorem Create_checks_first:
  "(validateName name \<noteq> None \<or> sizeInBytes < 10000000 \<or> (fs \<noteq> ''ext4'' \<and> fs \<noteq> ''xfs'')
      \<longrightarrow> fst (Create m name sizeInBytes sparse fs uid gid mode w) \<noteq> None
          \<and> snd (Create m name sizeInBytes sparse fs uid gid mode w) = w)
   \<and> (validateName name = None \<and> sizeInBytes < 10000000
      \<longrightarrow> fst (Create m name sizeInBytes sparse fs uid gid mode w) = Some (New SizeTooSmall))
   \<and> (validateName name = None \<and> 10000000 \<le> sizeInBytes \<and> fs \<noteq> ''ext4'' \<and> fs \<noteq> ''xfs''
      \<longrightarrow> fst (Create m name sizeInBytes sparse fs uid gid mode w) = Some (New UnsupportedFilesystem))"
  using MkFsOptions_None [of fs]
  by (cases "validateName name") (auto simp: Create_def Errorf_def Let_def)

lemma validateName_a: "validateName ''a'' = Some (New InvalidName)"
  by (simp add: validateName_def MatchString_def NameRegex_def Errorf_def)

text \<open>
  C6, as stated for every name and file system, fails: a name that does not pass validation
  fails with \<open>InvalidName\<close> whatever the size, and a size below 10,000,000 fails with
  \<open>SizeTooSmall\<close> whatever the file system.
\<close>

theorem Create_small_size_counterexample:
  "fst (Create mgr ''a'' 5 False ''ext4'' (- 1) (- 1) 0 emptyWorld) = Some (Wrap (New InvalidName) InvalidName)
   \<and> fst (Create mgr ''db'' 5 False ''zfs'' (- 1) (- 1) 0 emptyWorld) = Some (New SizeTooSmall)"
  by (simp add: Create_def validateName_a validateName_db Errorf_def)

theorem Create_checks_first_witness:
  "Create mgr ''db'' 9999999 False ''ext4'' (- 1) (- 1) 0 emptyWorld = (Some (New SizeTooSmall), emptyWorld)
   \<and> Create mgr ''db'' 10000000 False ''zfs'' (- 1) (- 1) 0 emptyWorld
        = (Some (New UnsupportedFilesystem), emptyWorld)"
proof -
  have "''zfs'' \<noteq> ''ext4'' \<and> ''zfs'' \<noteq> ''xfs''" by simp
  with Create_checks_first [of "''db''" 9999999 "''ext4''" mgr False "- 1" "- 1" 0 emptyWorld]
    Create_checks_first [of "''db''" 10000000 "''zfs''" mgr False "- 1" "- 1" 0 emptyWorld]
    validateName_db
  show ?thesis by (simp add: prod_eq_iff)
qed

lemma map_of_filter_fst:
  "map_of (filter (\<lambda>e. fst e \<noteq> q) xs) p = (if p = q then None else map_of xs p)"
  by (induction xs) auto

lemma sdiv_nonneg: "0 \<le> (a::int) \<Longrightarrow> 0 < b \<Longrightarrow> a sdiv b = a div b"
  by (cases "a = 0") (simp_all add: signed_divide_int_def)

lemma effect_trace [simp]: "trace (effect c out w) = trace w"
  by (cases c; cases "leftover out") (simp_all add: putFile_def)

lemma effect_respond [simp]: "respond (effect c out w) = respond w"
  by (cases c; cases "leftover out") (simp_all add: putFile_def)

lemma effect_dirs [simp]: "dirs (effect c out w) = dirs w"
  by (cases c; cases "leftover out") (simp_all add: putFile_def)

lemma os_Remove_gone: "map_of (dataFiles (snd (os_Remove p w))) p = None"
  by (simp add: os_Remove_def map_of_filter_fst)

lemma os_Remove_trace [simp]: "trace (snd (os_Remove p w)) = trace w"
  by (simp add: os_Remove_def)

lemma exec_trace: "trace (snd (exec c w)) = trace w @ [(c, respond w (trace w) c)]"
  by (simp add: exec_def Let_def)

lemma exec_fst: "fst (exec c w) = respond w (trace w) c"
  by (simp add: exec_def Let_def)

lemma exec_files_other:
  "\<not> (\<exists>n p. c = Truncate n p) \<Longrightarrow> \<not> (\<exists>n p. c = Fallocate n p) \<Longrightarrow> \<not> (\<exists>p b n. c = Dd p b n)
   \<Longrightarrow> dataFiles (snd (exec c w)) = dataFiles w"
  by (cases c) (simp_all add: exec_def Let_def)

lemma Create_stages:
  assumes "validateName name = None" "10000000 \<le> sizeInBytes" "MkFsOptions fs = Some mkfsFlags"
    and "dataFilePath = Join (dataDir m) (name @ ''.'' @ fs)"
  shows "Create m name sizeInBytes sparse fs uid gid mode w =
     (let w1 = snd (os_MkdirAll (dataDir m) w);
          r2 = Create_dataFile sizeInBytes sparse dataFilePath w1
      in if fst r2 \<noteq> None then r2
         else let r3 = Create_format fs mkfsFlags dataFilePath (snd r2)
              in if fst r3 \<noteq> None then r3
                 else Create_adjust m name uid gid mode dataFilePath (snd r3))"
  using assms by (simp add: Create_def os_MkdirAll_def Let_def case_prod_beta prod_eq_iff)

lemma Create_dataFile_no_space:
  assumes "out = respond w (trace w) (Fallocate sizeInBytes p)"
    and "exitErr out \<noteq> None" "Contains (TrimSpace (outputText out)) ''No space''"
  shows "fst (Create_dataFile sizeInBytes False p w) = Wrapf (exitErr out) InsufficientSpace
     \<and> trace (snd (Create_dataFile sizeInBytes False p w)) = trace w @ [(Fallocate sizeInBytes p, out)]
     \<and> map_of (dataFiles (snd (Create_dataFile sizeInBytes False p w))) p = None"
  using assms
  by (simp add: Create_dataFile_def case_prod_beta exec_fst exec_trace os_Remove_gone)

text \<open>
  C7. In the allocation that is not sparse, when \<open>fallocate\<close> fails and its output has
  "No space", \<open>Create\<close> fails with \<open>InsufficientSpace\<close>; \<open>fallocate\<close> is the only command it has
  run (no \<open>dd\<close>), and no file is left at the path of the backing file.
\<close>

theorem Create_no_space:
  assumes "validateName name = None" "10000000 \<le> sizeInBytes" "MkFsOptions fs = Some mkfsFlags"
    and "dataFilePath = Join (dataDir m) (name @ ''.'' @ fs)"
    and "out = respond w (trace w) (Fallocate sizeInBytes dataFilePath)"
    and "exitErr out \<noteq> None" "Contains (TrimSpace (outputText out)) ''No space''"
    and "r = Create m name sizeInBytes False fs uid gid mode w"
  shows "(\<exists>e. exitErr out = Some e \<and> fst r = Some (Wrap e InsufficientSpace))
     \<and> executed w (snd r) = [(Fallocate sizeInBytes dataFilePath, out)]
     \<and> fileSize dataFilePath (snd r) = None"
proof -
  let ?w1 = "snd (os_MkdirAll (dataDir m) w)"
  have t: "trace ?w1 = trace w" "respond ?w1 = respond w" by (simp_all add: os_MkdirAll_def)
  then have o: "out = respond ?w1 (trace ?w1) (Fallocate sizeInBytes dataFilePath)"
    using assms(5) by simp
  note d = Create_dataFile_no_space [OF o assms(6,7)]
  from assms(6) obtain e where e: "exitErr out = Some e" by auto
  have "r = Create_dataFile sizeInBytes False dataFilePath ?w1"
    using d e by (simp add: assms(8) Create_stages [OF assms(1-4)] Let_def)
  with d e t show ?thesis by (simp add: executed_def fileSize_def)
qed

lemma os_RemoveIn_trace [simp]: "trace (snd (os_RemoveIn d n w)) = trace w"
  by (auto simp: os_RemoveIn_def split: option.splits)

lemma Mount_lease_trace [simp]: "trace (snd (Mount_lease vol lease w)) = trace w"
  by (auto simp: Mount_lease_def os_Stat_def os_StatIn_def os_CreateIn_def os_MkdirAll_def Let_def
      split: option.splits)

lemma Mount_attach_prefix: "prefix (trace w) (trace (snd (Mount_attach vol lease w)))"
  by (simp add: Mount_attach_def os_Mkdir_def exec_trace Let_def case_prod_beta)

lemma Mount_prefix: "prefix xs (trace w) \<Longrightarrow> prefix xs (trace (snd (Mount m name lease w)))"
proof -
  have "prefix (trace w) (trace (snd (Mount_attach vol lease (snd (Mount_lease vol lease w)))))" for vol
    using Mount_attach_prefix [of "snd (Mount_lease vol lease w)" vol lease] by simp
  then have "prefix (trace w) (trace (snd (Mount m name lease w)))"
    by (simp add: Mount_def Let_def case_prod_beta split: sum.splits)
  then show "prefix xs (trace w) \<Longrightarrow> ?thesis" by (rule prefix_order.trans [rotated])
qed

lemma UnMount_prefix: "prefix xs (trace w) \<Longrightarrow> prefix xs (trace (snd (UnMount m name lease w)))"
proof -
  have "prefix (trace w) (trace (snd (UnMount m name lease w)))"
    by (simp add: UnMount_def Let_def case_prod_beta os_RemoveAll_def exec_trace split: sum.splits)
  then show "prefix xs (trace w) \<Longrightarrow> ?thesis" by (rule prefix_order.trans [rotated])
qed

lemma map_of_filter_fst2:
  "map_of (filter (\<lambda>e. fst e \<noteq> q \<and> fst e \<noteq> q') xs) p
     = (if p = q \<or> p = q' then None else map_of xs p)"
  by (induction xs) auto

lemma UnMount_map_of:
  assumes "p \<noteq> Join (stateDir m) name" "p \<noteq> Join (mountDir m) name"
  shows "map_of (dataFiles (snd (UnMount m name lease w))) p = map_of (dataFiles w) p"
proof (cases "getVolume m name w")
  case (Inl e)
  then show ?thesis by (simp add: UnMount_def Let_def)
next
  case (Inr vol)
  from getVolume_fields [OF Inr] assms
  have "p \<noteq> StateDir vol" "p \<noteq> MountPointPath vol" by simp_all
  then show ?thesis using Inr
    by (simp add: UnMount_def Let_def case_prod_beta os_RemoveAll_def map_of_filter_fst
        map_of_filter_fst2 os_RemoveIn_files exec_files_other)
qed

lemma Join_last_segment:
  assumes "CHR ''/'' \<notin> set b"
  shows "takeWhile (\<lambda>c. c \<noteq> CHR ''/'') (rev (Join a b)) = rev b"
  using assms by (auto simp: Join_def takeWhile_tail takeWhile_eq_all_conv)

lemma dataFilePath_not_dir:
  assumes "validateName name = None" "CHR ''/'' \<notin> set fs"
  shows "Join a (name @ ''.'' @ fs) \<noteq> Join b name"
proof
  assume e: "Join a (name @ ''.'' @ fs) = Join b name"
  have n: "CHR ''/'' \<notin> set name" using assms(1) by (rule validateName_no_slash)
  then have "CHR ''/'' \<notin> set (name @ ''.'' @ fs)" using assms(2) by simp
  from Join_last_segment [OF this, of a] Join_last_segment [OF n, of b] e
  have "rev (name @ ''.'' @ fs) = rev name" by simp
  then have "length (name @ ''.'' @ fs) = length name" by (metis length_rev)
  then show False by simp
qed

lemma Wrapf_None [simp]: "Wrapf e k = None \<longleftrightarrow> e = None"
  by (cases e) simp_all

lemma exec_prefix: "prefix xs (trace w) \<Longrightarrow> prefix xs (trace (snd (exec c w)))"
  by (simp add: exec_trace)

lemma Create_format_prefix:
  "prefix xs (trace w) \<Longrightarrow> prefix xs (trace (snd (Create_format fs fl p w)))"
  by (simp add: Create_format_def case_prod_beta exec_trace)

lemma Create_format_files:
  "fst (Create_format fs fl p w) = None \<Longrightarrow> dataFiles (snd (Create_format fs fl p w)) = dataFiles w"
  by (simp add: Create_format_def case_prod_beta exec_files_other split: if_splits)

lemma Create_adjust_facts:
  "prefix (trace w) (trace (snd (Create_adjust m name uid gid mode p w)))
   \<and> (p \<noteq> Join (stateDir m) name \<and> p \<noteq> Join (mountDir m) name
        \<and> fst (Create_adjust m name uid gid mode p w) = None
      \<longrightarrow> map_of (dataFiles (snd (Create_adjust m name uid gid mode p w))) p = map_of (dataFiles w) p)"
proof -
  define r1 where "r1 = Mount m name ''driver'' w"
  define r2 where "r2 = (if mode > 0
      then (case exec (Chmod mode (fst (fst r1))) (snd r1) of (out, w') \<Rightarrow> (exitErr out, w'))
      else (None, snd r1))"
  define r3 where "r3 = (if uid \<ge> 0 \<or> gid \<ge> 0
      then (case exec (Chown (fst (fst r1)) uid gid) (snd r2) of (out, w') \<Rightarrow> (exitErr out, w'))
      else (None, snd r2))"
  define r4 where "r4 = UnMount m name ''driver'' (snd r3)"
  have eq: "Create_adjust m name uid gid mode p w =
    (if uid \<ge> 0 \<or> gid \<ge> 0 \<or> mode > 0 then
       if snd (fst r1) \<noteq> None
       then (Wrapf (snd (fst r1)) OwnershipSetupFailed, snd (os_Remove p (snd r1)))
       else if fst r2 \<noteq> None
       then (Wrapf (fst r2) OwnershipSetupFailed,
             snd (os_Remove p (snd (UnMount m name ''driver'' (snd r2)))))
       else if fst r3 \<noteq> None
       then (Wrapf (fst r3) OwnershipSetupFailed,
             snd (os_Remove p (snd (UnMount m name ''driver'' (snd r3)))))
       else if fst r4 \<noteq> None
       then (Wrapf (fst r4) OwnershipSetupFailed, snd (os_Remove p (snd r4)))
       else (None, snd r4)
     else (None, w))"
    unfolding Create_adjust_def r1_def r2_def r3_def r4_def
    by (simp add: case_prod_beta Let_def)
  have t1: "prefix (trace w) (trace (snd r1))" unfolding r1_def by (rule Mount_prefix) simp
  then have t2: "prefix (trace w) (trace (snd r2))"
    unfolding r2_def by (simp add: case_prod_beta exec_trace)
  then have t3: "prefix (trace w) (trace (snd r3))"
    unfolding r3_def by (simp add: case_prod_beta exec_trace)
  then have t4: "prefix (trace w) (trace (snd r4))" unfolding r4_def by (rule UnMount_prefix)
  have u2: "prefix (trace w) (trace (snd (UnMount m name ''driver'' (snd r2))))"
    using t2 by (rule UnMount_prefix)
  have u3: "prefix (trace w) (trace (snd (UnMount m name ''driver'' (snd r3))))"
    using t3 by (rule UnMount_prefix)
  have A: "prefix (trace w) (trace (snd (Create_adjust m name uid gid mode p w)))"
    unfolding eq using t1 t4 u2 u3 by simp
  have f1: "dataFiles (snd r1) = dataFiles w" unfolding r1_def by (rule Mount_files)
  have f2: "dataFiles (snd r2) = dataFiles (snd r1)"
    unfolding r2_def by (simp add: case_prod_beta exec_files_other)
  have f3: "dataFiles (snd r3) = dataFiles (snd r2)"
    unfolding r3_def by (simp add: case_prod_beta exec_files_other)
  have B: "map_of (dataFiles (snd (Create_adjust m name uid gid mode p w))) p = map_of (dataFiles w) p"
    if "p \<noteq> Join (stateDir m) name" "p \<noteq> Join (mountDir m) name"
      and n: "fst (Create_adjust m name uid gid mode p w) = None"
  proof -
    have f4: "map_of (dataFiles (snd r4)) p = map_of (dataFiles (snd r3)) p"
      unfolding r4_def by (rule UnMount_map_of [OF that(1,2)])
    from n have "snd (Create_adjust m name uid gid mode p w) = w
        \<or> snd (Create_adjust m name uid gid mode p w) = snd r4"
      unfolding eq by (simp split: if_splits)
    with f1 f2 f3 f4 show ?thesis by auto
  qed
  from A B show ?thesis by blast
qed

lemma exec_respond: "respond (snd (exec c w)) = respond w"
  by (simp add: exec_def Let_def)

lemma exec_Dd_file:
  "exitErr (respond w (trace w) (Dd p bs c)) = None \<Longrightarrow>
   map_of (dataFiles (snd (exec (Dd p bs c) w))) p = Some \<lparr>fmode = Regular, Size = bs * c\<rparr>"
  by (simp add: exec_def Let_def putFile_def)

lemma Create_dataFile_fallback:
  assumes "out = respond w (trace w) (Fallocate n p)"
    and "exitErr out \<noteq> None" "\<not> Contains (TrimSpace (outputText out)) ''No space''"
    and "0 \<le> n"
    and "out2 = respond w (trace w @ [(Fallocate n p, out)]) (Dd p 1000000 (n div 1000000))"
  shows "trace (snd (Create_dataFile n False p w))
           = trace w @ [(Fallocate n p, out), (Dd p 1000000 (n div 1000000), out2)]
     \<and> (fst (Create_dataFile n False p w) = None \<longrightarrow>
          map_of (dataFiles (snd (Create_dataFile n False p w))) p
            = Some \<lparr>fmode = Regular, Size = 1000000 * (n div 1000000)\<rparr>)"
proof -
  have s: "n sdiv 1000000 = n div 1000000" using assms(4) by (simp add: sdiv_nonneg)
  let ?w1 = "snd (exec (Fallocate n p) w)"
  let ?r2 = "exec (Dd p 1000000 (n div 1000000)) ?w1"
  have w1: "trace ?w1 = trace w @ [(Fallocate n p, out)]" "respond ?w1 = respond w"
    using assms(1) by (simp_all add: exec_trace exec_respond)
  have o2: "fst ?r2 = out2" using w1 assms(5) by (simp add: exec_fst)
  have t2: "trace (snd ?r2) = trace w @ [(Fallocate n p, out), (Dd p 1000000 (n div 1000000), out2)]"
    using w1 assms(5) by (simp add: exec_trace)
  have f2: "map_of (dataFiles (snd ?r2)) p = Some \<lparr>fmode = Regular, Size = 1000000 * (n div 1000000)\<rparr>"
    if "exitErr out2 = None"
    using that w1 assms(5) exec_Dd_file [of ?w1 p 1000000 "n div 1000000"] by simp
  have eq: "Create_dataFile n False p w =
      (if exitErr out2 \<noteq> None then (Wrapf (exitErr out2) AllocationFailed, snd (os_Remove p (snd ?r2)))
       else (None, snd ?r2))"
    using assms(1,2,3) o2
    by (simp add: Create_dataFile_def case_prod_beta exec_fst Let_def s)
  show ?thesis unfolding eq using t2 f2 by auto
qed

text \<open>
  C8. In the allocation that is not sparse, when \<open>fallocate\<close> fails and its output has no
  "No space", the next command is \<open>dd\<close> with \<open>bs=1000000\<close> and \<open>count\<close> the whole number of
  blocks in the size. When \<open>Create\<close> then succeeds, the backing file has \<open>1000000 * count\<close>
  bytes: nothing later in \<open>Create\<close> changes its length, which is short of the requested size
  by the remainder, between 0 and 999,999 bytes.
\<close>

theorem Create_fallback_blocks:
  assumes "validateName name = None" "10000000 \<le> sizeInBytes" "MkFsOptions fs = Some mkfsFlags"
    and "dataFilePath = Join (dataDir m) (name @ ''.'' @ fs)"
    and "out = respond w (trace w) (Fallocate sizeInBytes dataFilePath)"
    and "exitErr out \<noteq> None" "\<not> Contains (TrimSpace (outputText out)) ''No space''"
    and "count = sizeInBytes div 1000000"
    and "out2 = respond w (trace w @ [(Fallocate sizeInBytes dataFilePath, out)])
                  (Dd dataFilePath 1000000 count)"
    and "r = Create m name sizeInBytes False fs uid gid mode w"
  shows "prefix [(Fallocate sizeInBytes dataFilePath, out), (Dd dataFilePath 1000000 count, out2)]
           (executed w (snd r))
     \<and> (fst r = None \<longrightarrow> fileSize dataFilePath (snd r) = Some (1000000 * count))
     \<and> 0 \<le> sizeInBytes - 1000000 * count \<and> sizeInBytes - 1000000 * count \<le> 999999"
proof -
  let ?w1 = "snd (os_MkdirAll (dataDir m) w)"
  let ?r2 = "Create_dataFile sizeInBytes False dataFilePath ?w1"
  let ?r3 = "Create_format fs mkfsFlags dataFilePath (snd ?r2)"
  let ?r4 = "Create_adjust m name uid gid mode dataFilePath (snd ?r3)"
  let ?cmds = "[(Fallocate sizeInBytes dataFilePath, out), (Dd dataFilePath 1000000 count, out2)]"
  have t: "trace ?w1 = trace w" "respond ?w1 = respond w" by (simp_all add: os_MkdirAll_def)
  have o: "out = respond ?w1 (trace ?w1) (Fallocate sizeInBytes dataFilePath)"
    using assms(5) t by simp
  have o2: "out2 = respond ?w1 (trace ?w1 @ [(Fallocate sizeInBytes dataFilePath, out)])
                  (Dd dataFilePath 1000000 (sizeInBytes div 1000000))"
    using assms(8,9) t by simp
  have nn: "0 \<le> sizeInBytes" using assms(2) by simp
  note d = Create_dataFile_fallback [OF o assms(6,7) nn o2]
  from d have t2: "trace (snd ?r2) = trace w @ ?cmds" using t assms(8) by simp
  have r: "r = (if fst ?r2 \<noteq> None then ?r2 else if fst ?r3 \<noteq> None then ?r3 else ?r4)"
    by (simp add: assms(10) Create_stages [OF assms(1-4)] Let_def)
  have p2: "prefix (trace w @ ?cmds) (trace (snd ?r2))" using t2 by simp
  then have p3: "prefix (trace w @ ?cmds) (trace (snd ?r3))" by (rule Create_format_prefix)
  have "prefix (trace (snd ?r3)) (trace (snd ?r4))" using Create_adjust_facts by blast
  with p3 have p4: "prefix (trace w @ ?cmds) (trace (snd ?r4))" by (rule prefix_order.trans)
  from p2 p3 p4 have "prefix (trace w @ ?cmds) (trace (snd r))" unfolding r by simp
  then obtain ys where "trace (snd r) = trace w @ ?cmds @ ys" by (auto simp: prefix_def)
  then have A: "prefix ?cmds (executed w (snd r))" by (simp add: executed_def)
  have B: "fileSize dataFilePath (snd r) = Some (1000000 * count)" if n: "fst r = None"
  proof -
    from n have n2: "fst ?r2 = None" and n3: "fst ?r3 = None" and n4: "fst ?r4 = None"
      and sr: "snd r = snd ?r4"
      unfolding r by (simp_all split: if_splits)
    have fs: "CHR ''/'' \<notin> set fs" using assms(3) by (auto simp: MkFsOptions_def split: if_splits)
    have ne: "dataFilePath \<noteq> Join (stateDir m) name" "dataFilePath \<noteq> Join (mountDir m) name"
      unfolding assms(4) by (rule dataFilePath_not_dir [OF assms(1) fs])+
    have "map_of (dataFiles (snd ?r4)) dataFilePath = map_of (dataFiles (snd ?r3)) dataFilePath"
      using Create_adjust_facts [of "snd ?r3" m name uid gid mode dataFilePath] ne n4 by blast
    also have "dataFiles (snd ?r3) = dataFiles (snd ?r2)" using n3 by (rule Create_format_files)
    also have "map_of (dataFiles (snd ?r2)) dataFilePath
         = Some \<lparr>fmode = Regular, Size = 1000000 * (sizeInBytes div 1000000)\<rparr>"
      using d n2 by simp
    finally show ?thesis by (simp add: fileSize_def sr assms(8))
  qed
  have C: "0 \<le> sizeInBytes - 1000000 * count \<and> sizeInBytes - 1000000 * count \<le> 999999"
    unfolding assms(8) by (simp add: minus_mult_div_eq_mod)
  from A B C show ?thesis by blast
qed

lemma noSpace_output:
  "Contains (TrimSpace (''fallocate: fallocate failed: No space left on device'' @ [CHR 0x0A])) ''No space''"
  by (simp add: TrimSpace_def isSpace_def)

lemma noFallocate_output:
  "\<not> Contains (TrimSpace (''fallocate: fallocate failed: Operation not supported'' @ [CHR 0x0A])) ''No space''"
  by (simp add: TrimSpace_def isSpace_def)

theorem Create_no_space_witness:
  "fst (Create mgr ''db'' 50000000 False ''ext4'' (- 1) (- 1) 0 fullDisk)
     = Some (Wrap (Sys ExitError) InsufficientSpace)
   \<and> length (executed fullDisk (snd (Create mgr ''db'' 50000000 False ''ext4'' (- 1) (- 1) 0 fullDisk))) = 1
   \<and> fileSize ''/data/db.ext4'' (snd (Create mgr ''db'' 50000000 False ''ext4'' (- 1) (- 1) 0 fullDisk)) = None"
proof -
  let ?out = "\<lparr>exitErr = Some (Sys ExitError),
           outputText = ''fallocate: fallocate failed: No space left on device'' @ [CHR 0x0A],
           leftover = Some 0\<rparr>"
  have 1: "(10000000::int) \<le> 50000000" by simp
  have 2: "MkFsOptions ''ext4'' = Some [''-F'']" by (simp add: MkFsOptions_def)
  have 3: "''/data/db.ext4'' = Join (dataDir mgr) (''db'' @ ''.'' @ ''ext4'')"
    by (simp add: Join_def mgr_def)
  have 4: "?out = respond fullDisk (trace fullDisk) (Fallocate 50000000 ''/data/db.ext4'')"
    by (simp add: fullDisk_def emptyWorld_def noSpace_def)
  have 5: "exitErr ?out \<noteq> None" by simp
  have 6: "Contains (TrimSpace (outputText ?out)) ''No space''" using noSpace_output by simp
  from Create_no_space [OF validateName_db 1 2 3 4 5 6 refl, of "- 1" "- 1" 0]
  show ?thesis by auto
qed

lemma Create_plain:
  "fst (Create mgr ''db'' 10999999 False ''ext4'' (- 1) (- 1) 0 plainDisk) = None"
proof -
  let ?w1 = "snd (os_MkdirAll (dataDir mgr) plainDisk)"
  let ?p = "''/data/db.ext4''"
  have 1: "(10000000::int) \<le> 10999999" by simp
  have 2: "MkFsOptions ''ext4'' = Some [''-F'']" by (simp add: MkFsOptions_def)
  have 3: "?p = Join (dataDir mgr) (''db'' @ ''.'' @ ''ext4'')" by (simp add: Join_def mgr_def)
  have r: "respond ?w1 = noFallocate" by (simp add: os_MkdirAll_def plainDisk_def emptyWorld_def)
  have d: "fst (Create_dataFile 10999999 False ?p ?w1) = None"
    using noFallocate_output
    by (simp add: Create_dataFile_def case_prod_beta exec_fst exec_respond r noFallocate_def
        success_def Let_def)
  have rr: "respond (snd (Create_dataFile 10999999 False ?p ?w1)) = noFallocate"
    using noFallocate_output
    by (simp add: Create_dataFile_def case_prod_beta exec_fst exec_respond r noFallocate_def
        success_def Let_def)
  have f: "fst (Create_format ''ext4'' [''-F''] ?p (snd (Create_dataFile 10999999 False ?p ?w1))) = None"
    by (simp add: Create_format_def case_prod_beta exec_fst rr noFallocate_def success_def)
  show ?thesis
    using d f by (simp add: Create_stages [OF validateName_db 1 2 3] Let_def Create_adjust_def)
qed

theorem Create_fallback_blocks_witness:
  "fileSize ''/data/db.ext4'' (snd (Create mgr ''db'' 10999999 False ''ext4'' (- 1) (- 1) 0 plainDisk))
     = Some 10000000"
proof -
  let ?out = "\<lparr>exitErr = Some (Sys ExitError),
           outputText = ''fallocate: fallocate failed: Operation not supported'' @ [CHR 0x0A],
           leftover = Some 0\<rparr>"
  have 1: "(10000000::int) \<le> 10999999" by simp
  have 2: "MkFsOptions ''ext4'' = Some [''-F'']" by (simp add: MkFsOptions_def)
  have 3: "''/data/db.ext4'' = Join (dataDir mgr) (''db'' @ ''.'' @ ''ext4'')"
    by (simp add: Join_def mgr_def)
  have 4: "?out = respond plainDisk (trace plainDisk) (Fallocate 10999999 ''/data/db.ext4'')"
    by (simp add: plainDisk_def emptyWorld_def noFallocate_def)
  have 5: "exitErr ?out \<noteq> None" by simp
  have 6: "\<not> Contains (TrimSpace (outputText ?out)) ''No space''" using noFallocate_output by simp
  from Create_fallback_blocks [OF validateName_db 1 2 3 4 5 6 refl refl refl, of "- 1" "- 1" 0]
    Create_plain
  show ?thesis by simp
qed

end
